theory Spec2Isabelle
  imports Main "HOL-Library.Word"
begin

unbundle bit_operations_syntax

section \<open>Data model of \<open>hello_vulkan.cpp\<close>\<close>

text \<open>
  The renderer keeps its scene in a handful of growing vectors and talks to the GPU through
  Vulkan, the \<open>nvvk\<close> allocator and the ray-tracing and offscreen components. The embedding
  keeps the vectors as lists, the scalar members at their C++ width, and records every call
  made to a collaborator in an append-only trace (\<open>calls\<close>), in the order the source makes it.

  Scalars: \<open>uint32_t\<close> and \<open>int\<close> are 32-bit words (\<open>int\<close> is read with \<open>sint\<close>; the
  increment wraps as the machine's 32-bit addition does, the C++ standard leaves the overflow
  of \<open>int\<close> undefined). A \<open>float\<close> is kept as its IEEE-754 binary32 bit pattern, which is
  what \<open>memcmp\<close> looks at; only the comparison \<open>!=\<close> is interpreted. Float arithmetic and the
  \<open>nvmath\<close> matrix functions are parameters (record \<open>ext\<close>).
\<close>

type_synonym uint32 = "32 word"
type_synonym int32 = "32 word"
type_synonym float32 = "32 word"

datatype vec3f = Vec3f float32 float32 float32

text \<open>\<open>nvmath::mat4f\<close>: sixteen floats, stored column by column starting at \<open>a00\<close>.\<close>

record mat4f =
  a00 :: float32
  a10 :: float32
  a20 :: float32
  a30 :: float32
  a01 :: float32
  a11 :: float32
  a21 :: float32
  a31 :: float32
  a02 :: float32
  a12 :: float32
  a22 :: float32
  a32 :: float32
  a03 :: float32
  a13 :: float32
  a23 :: float32
  a33 :: float32

text \<open>GPU objects are opaque handles.\<close>

type_synonym handle = nat

record Buffer =
  buffer :: handle

text \<open>
  A texture keeps, beside its handle (the \<open>descriptor\<close> written to binding 3), what was
  uploaded into its image: the extent, the number of bytes copied, the bytes, and whether
  mip levels were generated.
\<close>

record Texture =
  descriptor :: handle
  extent :: "uint32 \<times> uint32"
  bufferSize :: "64 word"
  pixels :: "8 word list"
  mipmaps :: bool

record ObjModel =
  nbIndices :: uint32
  nbVertices :: uint32
  vertexBuffer :: Buffer
  indexBuffer :: Buffer
  matColorBuffer :: Buffer
  matIndexBuffer :: Buffer

record ObjInstance =
  objIndex :: uint32
  txtOffset :: uint32
  transform :: mat4f
  transformIT :: mat4f

datatype EObjType = eSphere | eCube

record ObjImplicit =
  minimum :: vec3f
  maximum :: vec3f
  objType :: EObjType
  matId :: int32

text \<open>\<open>MaterialObj\<close> is declared in \<open>obj_loader.h\<close>; it is the type parameter \<open>'mat\<close>.\<close>

record 'mat ImplInst =
  objImpl :: "ObjImplicit list"
  implMat :: "'mat list"
  implBuf :: Buffer
  implMatBuf :: Buffer

record ObjPushConstants =
  instanceId :: int32
  frame :: int32

datatype VkDescriptorType =
  VK_DESCRIPTOR_TYPE_UNIFORM_BUFFER
| VK_DESCRIPTOR_TYPE_STORAGE_BUFFER
| VK_DESCRIPTOR_TYPE_COMBINED_IMAGE_SAMPLER

datatype VkShaderStage =
  VK_SHADER_STAGE_VERTEX_BIT
| VK_SHADER_STAGE_FRAGMENT_BIT
| VK_SHADER_STAGE_RAYGEN_BIT_KHR
| VK_SHADER_STAGE_CLOSEST_HIT_BIT_KHR
| VK_SHADER_STAGE_ANY_HIT_BIT_KHR
| VK_SHADER_STAGE_INTERSECTION_BIT_KHR

record VkDescriptorSetLayoutBinding =
  binding :: uint32
  descriptorType :: VkDescriptorType
  descriptorCount :: uint32
  stageFlags :: "VkShaderStage list"

record VkDescriptorBufferInfo =
  dbi_buffer :: handle
  dbi_offset :: "64 word"
  dbi_range :: "64 word"

definition VK_WHOLE_SIZE :: "64 word" where
  "VK_WHOLE_SIZE = - 1"

text \<open>
  A descriptor write. A write of one descriptor carries its binding and the info. An array
  write carries its binding, its \<open>descriptorCount\<close> (\<open>None\<close> when the layout declares no
  such binding) and the vector its data pointer addresses: the count and the length of the
  vector are separate, the pointer carries no length.
\<close>

datatype VkWriteDescriptorSet =
  WriteBuffer uint32 VkDescriptorBufferInfo
| WriteBufferArray uint32 "uint32 option" "VkDescriptorBufferInfo list"
| WriteImageArray uint32 "uint32 option" "handle list"

text \<open>
  Reads that C++ does not check: an index outside a vector, a descriptor count beyond the
  array behind the pointer, a write to a binding the layout does not declare.
\<close>

datatype error = OutOfRange | BindingNotDeclared

text \<open>The calls to collaborators that the trace records, and the member call \<open>resetFrame\<close>.\<close>

datatype call =
  ResetFrame
| RtRaytrace ObjPushConstants
| AllocCreateBuffer Buffer nat
| AllocCreateTexture Texture
| VkUpdateDescriptorSets "VkWriteDescriptorSet list"
| VkDestroyPipeline handle
| VkDestroyPipelineLayout handle
| VkDestroyDescriptorPool handle
| VkDestroyDescriptorSetLayout handle
| AllocDestroyBuffer Buffer
| AllocDestroyTexture Texture
| OffscreenDestroy
| RaytraceDestroy
| AllocDeinit
| VkCmdBindPipeline handle
| VkCmdBindDescriptorSets handle handle
| VkCmdPushConstants ObjPushConstants
| VkCmdBindVertexBuffers handle
| VkCmdBindIndexBuffer handle
| VkCmdDrawIndexed uint32

text \<open>
  The application object. \<open>refCamMatrix\<close> and \<open>refFov\<close> are the function-local statics of
  \<open>updateFrame\<close>; \<open>refFov\<close> is \<open>None\<close> until the first call initialises it. \<open>fresh\<close> is the
  next unused handle.
\<close>

record 'mat HelloVulkan =
  m_objModel :: "ObjModel list"
  m_objInstance :: "ObjInstance list"
  m_textures :: "Texture list"
  m_implObjects :: "'mat ImplInst"
  m_cameraMat :: Buffer
  m_sceneDesc :: Buffer
  m_descSetLayoutBind :: "VkDescriptorSetLayoutBinding list"
  m_descSetLayout :: handle
  m_descPool :: handle
  m_descSet :: handle
  m_pipelineLayout :: handle
  m_graphicsPipeline :: handle
  m_pushConstants :: ObjPushConstants
  m_maxFrames :: int32
  refCamMatrix :: mat4f
  refFov :: "float32 option"
  fresh :: handle
  calls :: "call list"

text \<open>\<open>CameraManip\<close>, the camera singleton, as one tick reads it.\<close>

record CameraManipulator =
  getMatrix :: mat4f
  getFov :: float32

section \<open>Frame accumulation\<close>

text \<open>
  \<open>memcmp(&refCamMatrix.a00, &m.a00, sizeof(nvmath::mat4f))\<close> compares the object
  representations: the sixteen floats in memory order, four bytes each (least significant
  byte first; the order does not matter for the test \<open>!= 0\<close>). \<open>memcmp\<close> returns the sign
  of the first difference among the first \<open>n\<close> bytes, and \<open>None\<close> where it would read past
  the end of an object.
\<close>

definition floats :: "mat4f \<Rightarrow> float32 list" where
  "floats m = [a00 m, a10 m, a20 m, a30 m, a01 m, a11 m, a21 m, a31 m,
               a02 m, a12 m, a22 m, a32 m, a03 m, a13 m, a23 m, a33 m]"

definition float_bytes :: "float32 \<Rightarrow> 8 word list" where
  "float_bytes f = [ucast f, ucast (drop_bit 8 f), ucast (drop_bit 16 f), ucast (drop_bit 24 f)]"

definition mat4f_bytes :: "mat4f \<Rightarrow> 8 word list" where
  "mat4f_bytes m = concat (map float_bytes (floats m))"

fun memcmp :: "8 word list \<Rightarrow> 8 word list \<Rightarrow> nat \<Rightarrow> int option" where
  "memcmp xs ys 0 = Some 0"
| "memcmp (x # xs) (y # ys) (Suc n) =
     (if x = y then memcmp xs ys n else if x < y then Some (- 1) else Some 1)"
| "memcmp xs ys (Suc n) = None"

text \<open>
  \<open>refFov != fov\<close> on \<open>float\<close>: a NaN (exponent all ones, mantissa not zero) is unequal to
  everything, itself included; the two zeros are equal; otherwise the bit patterns decide.
\<close>

definition isnan :: "float32 \<Rightarrow> bool" where
  "isnan f \<longleftrightarrow> f AND 0x7F800000 = 0x7F800000 \<and> f AND 0x007FFFFF \<noteq> 0"

definition float_ne :: "float32 \<Rightarrow> float32 \<Rightarrow> bool" where
  "float_ne a b \<longleftrightarrow>
     isnan a \<or> isnan b \<or> (a \<noteq> b \<and> (a AND 0x7FFFFFFF \<noteq> 0 \<or> b AND 0x7FFFFFFF \<noteq> 0))"

definition resetFrame :: "'mat HelloVulkan \<Rightarrow> 'mat HelloVulkan" where
  "resetFrame s =
     s\<lparr>m_pushConstants := (m_pushConstants s)\<lparr>frame := - 1\<rparr>,
       calls := calls s @ [ResetFrame]\<rparr>"

text \<open>The value \<open>refFov\<close> has when the comparison reads it.\<close>

definition storedFov :: "CameraManipulator \<Rightarrow> 'mat HelloVulkan \<Rightarrow> float32" where
  "storedFov CameraManip s = (case refFov s of None \<Rightarrow> getFov CameraManip | Some r \<Rightarrow> r)"

definition cameraChanged :: "CameraManipulator \<Rightarrow> 'mat HelloVulkan \<Rightarrow> bool" where
  "cameraChanged CameraManip s \<longleftrightarrow>
     memcmp (mat4f_bytes (refCamMatrix s)) (mat4f_bytes (getMatrix CameraManip)) 64 \<noteq> Some 0
     \<or> float_ne (storedFov CameraManip s) (getFov CameraManip)"

definition updateFrame :: "CameraManipulator \<Rightarrow> 'mat HelloVulkan \<Rightarrow> 'mat HelloVulkan" where
  "updateFrame CameraManip s =
     (let s0 = s\<lparr>refFov := Some (storedFov CameraManip s)\<rparr>;
          m = getMatrix CameraManip;
          fov = getFov CameraManip;
          s1 = (if cameraChanged CameraManip s
                then (resetFrame s0)\<lparr>refCamMatrix := m, refFov := Some fov\<rparr>
                else s0)
      in s1\<lparr>m_pushConstants :=
              (m_pushConstants s1)\<lparr>frame := frame (m_pushConstants s1) + 1\<rparr>\<rparr>)"

text \<open>
  \<open>raytrace\<close>: after \<open>updateFrame\<close>, \<open>frame >= m_maxFrames\<close> (a signed comparison) returns
  early; otherwise the ray tracer is called with the push constants.
\<close>

definition raytrace :: "CameraManipulator \<Rightarrow> 'mat HelloVulkan \<Rightarrow> 'mat HelloVulkan" where
  "raytrace CameraManip s =
     (let s1 = updateFrame CameraManip s
      in if sint (m_maxFrames s1) \<le> sint (frame (m_pushConstants s1)) then s1
         else s1\<lparr>calls := calls s1 @ [RtRaytrace (m_pushConstants s1)]\<rparr>)"

text \<open>A run of \<open>n\<close> render ticks in ray-tracing mode, the camera read at each tick being the same.\<close>

fun ticks :: "nat \<Rightarrow> CameraManipulator \<Rightarrow> 'mat HelloVulkan \<Rightarrow> 'mat HelloVulkan" where
  "ticks 0 CameraManip s = s"
| "ticks (Suc n) CameraManip s = raytrace CameraManip (ticks n CameraManip s)"

section \<open>Collaborators that are not part of this file\<close>

text \<open>
  What \<open>nvmath\<close>, \<open>stb_image\<close> and the headers supply: the matrix functions, the
  vector-scalar operators used by \<open>addImplSphere\<close>, the three \<open>pow(\<dots>, 2.2f)\<close> assignments
  on a material, the image decoder (with \<open>nvh::findFile\<close> in front of it), and the
  value-initialised \<open>ObjImplicit\<close> and \<open>MaterialObj\<close>.
\<close>

record stb_image =
  texWidth :: int32
  texHeight :: int32
  stbi_pixels :: "8 word list"

record 'mat ext =
  nv_invert :: "mat4f \<Rightarrow> mat4f"
  nv_transpose :: "mat4f \<Rightarrow> mat4f"
  nv_pow_material :: "'mat \<Rightarrow> 'mat"
  vec_minus :: "vec3f \<Rightarrow> float32 \<Rightarrow> vec3f"
  vec_plus :: "vec3f \<Rightarrow> float32 \<Rightarrow> vec3f"
  stbi_load :: "string \<Rightarrow> stb_image option"
  ObjImplicit_default :: ObjImplicit
  MaterialObj_default :: 'mat

text \<open>What \<open>ObjLoader::loadModel\<close> leaves in the loader (\<open>VertexObj\<close> is the parameter \<open>'vtx\<close>).\<close>

record ('vtx, 'mat) ObjLoader =
  ld_vertices :: "'vtx list"
  ld_indices :: "uint32 list"
  ld_materials :: "'mat list"
  ld_matIndx :: "int32 list"
  ld_textures :: "string list"

section \<open>Resource registry\<close>

text \<open>
  \<open>m_alloc.createBuffer(cmdBuf, vector, usage)\<close>: a new buffer; the trace keeps the number of
  elements uploaded into it.
\<close>

definition createBuffer :: "nat \<Rightarrow> 'mat HelloVulkan \<Rightarrow> Buffer \<times> 'mat HelloVulkan" where
  "createBuffer n s =
     (let b = \<lparr>buffer = fresh s\<rparr>
      in (b, s\<lparr>fresh := fresh s + 1, calls := calls s @ [AllocCreateBuffer b n]\<rparr>))"

text \<open>\<open>createImage\<close>, \<open>createTexture\<close> and \<open>m_textures.push_back\<close>.\<close>

definition pushTexture ::
  "uint32 \<times> uint32 \<Rightarrow> 64 word \<Rightarrow> 8 word list \<Rightarrow> bool \<Rightarrow> 'mat HelloVulkan \<Rightarrow> 'mat HelloVulkan" where
  "pushTexture imgSize sz px mips s =
     (let texture = \<lparr>descriptor = fresh s, extent = imgSize, bufferSize = sz,
                      pixels = px, mipmaps = mips\<rparr>
      in s\<lparr>fresh := fresh s + 1,
           m_textures := m_textures s @ [texture],
           calls := calls s @ [AllocCreateTexture texture]\<rparr>)"

text \<open>The loop of the \<open>else\<close> branch: a file that does not decode becomes one magenta pixel.\<close>

fun uploadImages :: "'mat ext \<Rightarrow> string list \<Rightarrow> 'mat HelloVulkan \<Rightarrow> 'mat HelloVulkan" where
  "uploadImages E [] s = s"
| "uploadImages E (texture # rest) s =
     (let txtFile = ''media/textures/'' @ texture;
          img = (case stbi_load E txtFile of
                   None \<Rightarrow> \<lparr>texWidth = 1, texHeight = 1, stbi_pixels = [255, 0, 255, 255]\<rparr>
                 | Some i \<Rightarrow> i);
          sz = scast (texWidth img) * scast (texHeight img) * 1 * 4;
          imgSize = (texWidth img, texHeight img)
      in uploadImages E rest (pushTexture imgSize sz (stbi_pixels img) True s))"

definition createTextureImages ::
  "'mat ext \<Rightarrow> string list \<Rightarrow> 'mat HelloVulkan \<Rightarrow> 'mat HelloVulkan" where
  "createTextureImages E textures s =
     (if textures = [] \<and> m_textures s = []
      then pushTexture (1, 1) 4 [255, 255, 255, 255] False s
      else uploadImages E textures s)"

definition loadModel ::
  "'mat ext \<Rightarrow> ('vtx, 'mat) ObjLoader \<Rightarrow> mat4f \<Rightarrow> 'mat HelloVulkan \<Rightarrow> 'mat HelloVulkan" where
  "loadModel E loader transf s =
     (let materials = map (nv_pow_material E) (ld_materials loader);
          inst = \<lparr>objIndex = of_nat (length (m_objModel s)),
                   txtOffset = of_nat (length (m_textures s)),
                   transform = transf,
                   transformIT = nv_transpose E (nv_invert E transf)\<rparr>;
          (vb, s1) = createBuffer (length (ld_vertices loader)) s;
          (ib, s2) = createBuffer (length (ld_indices loader)) s1;
          (mc, s3) = createBuffer (length materials) s2;
          (mi, s4) = createBuffer (length (ld_matIndx loader)) s3;
          s5 = createTextureImages E (ld_textures loader) s4;
          model = \<lparr>nbIndices = of_nat (length (ld_indices loader)),
                    nbVertices = of_nat (length (ld_vertices loader)),
                    vertexBuffer = vb, indexBuffer = ib,
                    matColorBuffer = mc, matIndexBuffer = mi\<rparr>
      in s5\<lparr>m_objModel := m_objModel s5 @ [model],
            m_objInstance := m_objInstance s5 @ [inst]\<rparr>)"

text \<open>Scene setup: the models are loaded one after the other.\<close>

fun loadModels ::
  "'mat ext \<Rightarrow> (('vtx, 'mat) ObjLoader \<times> mat4f) list \<Rightarrow> 'mat HelloVulkan \<Rightarrow> 'mat HelloVulkan" where
  "loadModels E [] s = s"
| "loadModels E ((loader, transf) # rest) s = loadModels E rest (loadModel E loader transf s)"

definition addImplSphere ::
  "'mat ext \<Rightarrow> vec3f \<Rightarrow> float32 \<Rightarrow> int32 \<Rightarrow> 'mat HelloVulkan \<Rightarrow> 'mat HelloVulkan" where
  "addImplSphere E center radius mid s =
     (let impl = \<lparr>minimum = vec_minus E center radius,
                   maximum = vec_plus E center radius,
                   objType = eSphere,
                   matId = mid\<rparr>
      in s\<lparr>m_implObjects :=
             (m_implObjects s)\<lparr>objImpl := objImpl (m_implObjects s) @ [impl]\<rparr>\<rparr>)"

definition addImplCube ::
  "vec3f \<Rightarrow> vec3f \<Rightarrow> int32 \<Rightarrow> 'mat HelloVulkan \<Rightarrow> 'mat HelloVulkan" where
  "addImplCube minumum maxi mid s =
     (let impl = \<lparr>minimum = minumum, maximum = maxi, objType = eCube, matId = mid\<rparr>
      in s\<lparr>m_implObjects :=
             (m_implObjects s)\<lparr>objImpl := objImpl (m_implObjects s) @ [impl]\<rparr>\<rparr>)"

definition addImplMaterial :: "'mat \<Rightarrow> 'mat HelloVulkan \<Rightarrow> 'mat HelloVulkan" where
  "addImplMaterial mat s =
     s\<lparr>m_implObjects := (m_implObjects s)\<lparr>implMat := implMat (m_implObjects s) @ [mat]\<rparr>\<rparr>"

definition createImplictBuffers :: "'mat ext \<Rightarrow> 'mat HelloVulkan \<Rightarrow> 'mat HelloVulkan" where
  "createImplictBuffers E s =
     (let io = m_implObjects s;
          io1 = (if objImpl io = [] then io\<lparr>objImpl := objImpl io @ [ObjImplicit_default E]\<rparr>
                 else io);
          io2 = (if implMat io1 = [] then io1\<lparr>implMat := implMat io1 @ [MaterialObj_default E]\<rparr>
                 else io1);
          (b1, s1) = createBuffer (length (objImpl io2)) (s\<lparr>m_implObjects := io2\<rparr>);
          (b2, s2) = createBuffer (length (implMat io2)) s1
      in s2\<lparr>m_implObjects := io2\<lparr>implBuf := b1, implMatBuf := b2\<rparr>\<rparr>)"

section \<open>Descriptor binding builder\<close>

text \<open>\<open>m_descSetLayoutBind.addBinding\<close> appends one binding.\<close>

definition addBinding ::
  "uint32 \<Rightarrow> VkDescriptorType \<Rightarrow> uint32 \<Rightarrow> VkShaderStage list
   \<Rightarrow> VkDescriptorSetLayoutBinding list \<Rightarrow> VkDescriptorSetLayoutBinding list" where
  "addBinding b ty n stages binds =
     binds @ [\<lparr>binding = b, descriptorType = ty, descriptorCount = n, stageFlags = stages\<rparr>]"

definition createDescriptorSetLayout :: "'mat HelloVulkan \<Rightarrow> 'mat HelloVulkan" where
  "createDescriptorSetLayout s =
     (let nbTxt = of_nat (length (m_textures s));
          nbObj = of_nat (length (m_objModel s));
          b0 = addBinding 0 VK_DESCRIPTOR_TYPE_UNIFORM_BUFFER 1
                 [VK_SHADER_STAGE_VERTEX_BIT, VK_SHADER_STAGE_RAYGEN_BIT_KHR]
                 (m_descSetLayoutBind s);
          b1 = addBinding 1 VK_DESCRIPTOR_TYPE_STORAGE_BUFFER (nbObj + 1)
                 [VK_SHADER_STAGE_VERTEX_BIT, VK_SHADER_STAGE_FRAGMENT_BIT,
                  VK_SHADER_STAGE_CLOSEST_HIT_BIT_KHR, VK_SHADER_STAGE_ANY_HIT_BIT_KHR] b0;
          b2 = addBinding 2 VK_DESCRIPTOR_TYPE_STORAGE_BUFFER 1
                 [VK_SHADER_STAGE_VERTEX_BIT, VK_SHADER_STAGE_FRAGMENT_BIT,
                  VK_SHADER_STAGE_CLOSEST_HIT_BIT_KHR, VK_SHADER_STAGE_ANY_HIT_BIT_KHR] b1;
          b3 = addBinding 3 VK_DESCRIPTOR_TYPE_COMBINED_IMAGE_SAMPLER nbTxt
                 [VK_SHADER_STAGE_FRAGMENT_BIT, VK_SHADER_STAGE_CLOSEST_HIT_BIT_KHR,
                  VK_SHADER_STAGE_ANY_HIT_BIT_KHR] b2;
          b4 = addBinding 4 VK_DESCRIPTOR_TYPE_STORAGE_BUFFER nbObj
                 [VK_SHADER_STAGE_FRAGMENT_BIT, VK_SHADER_STAGE_CLOSEST_HIT_BIT_KHR,
                  VK_SHADER_STAGE_ANY_HIT_BIT_KHR] b3;
          b5 = addBinding 5 VK_DESCRIPTOR_TYPE_STORAGE_BUFFER nbObj
                 [VK_SHADER_STAGE_CLOSEST_HIT_BIT_KHR] b4;
          b6 = addBinding 6 VK_DESCRIPTOR_TYPE_STORAGE_BUFFER nbObj
                 [VK_SHADER_STAGE_CLOSEST_HIT_BIT_KHR] b5;
          b7 = addBinding 7 VK_DESCRIPTOR_TYPE_STORAGE_BUFFER 1
                 [VK_SHADER_STAGE_CLOSEST_HIT_BIT_KHR, VK_SHADER_STAGE_INTERSECTION_BIT_KHR,
                  VK_SHADER_STAGE_ANY_HIT_BIT_KHR] b6
      in s\<lparr>m_descSetLayoutBind := b7,
           m_descSetLayout := fresh s,
           m_descPool := fresh s + 1,
           m_descSet := fresh s + 2,
           fresh := fresh s + 3\<rparr>)"

text \<open>The array count a layout declares for a binding (the first entry with that number).\<close>

fun declaredCount :: "VkDescriptorSetLayoutBinding list \<Rightarrow> uint32 \<Rightarrow> uint32 option" where
  "declaredCount [] b = None"
| "declaredCount (x # xs) b =
     (if binding x = b then Some (descriptorCount x) else declaredCount xs b)"

definition wholeBuffer :: "Buffer \<Rightarrow> VkDescriptorBufferInfo" where
  "wholeBuffer b = \<lparr>dbi_buffer = buffer b, dbi_offset = 0, dbi_range = VK_WHOLE_SIZE\<rparr>"

text \<open>
  The loop over \<open>m_objModel\<close> in \<open>updateDescriptorSet\<close>, pushing one entry on each of
  \<open>dbiMat\<close>, \<open>dbiMatIdx\<close>, \<open>dbiVert\<close> and \<open>dbiIdx\<close>.
\<close>

fun pushModelInfos ::
  "ObjModel list
   \<Rightarrow> VkDescriptorBufferInfo list \<times> VkDescriptorBufferInfo list
      \<times> VkDescriptorBufferInfo list \<times> VkDescriptorBufferInfo list
   \<Rightarrow> VkDescriptorBufferInfo list \<times> VkDescriptorBufferInfo list
      \<times> VkDescriptorBufferInfo list \<times> VkDescriptorBufferInfo list" where
  "pushModelInfos [] acc = acc"
| "pushModelInfos (m # ms) (dbiMat, dbiMatIdx, dbiVert, dbiIdx) =
     pushModelInfos ms
       (dbiMat @ [wholeBuffer (matColorBuffer m)],
        dbiMatIdx @ [wholeBuffer (matIndexBuffer m)],
        dbiVert @ [wholeBuffer (vertexBuffer m)],
        dbiIdx @ [wholeBuffer (indexBuffer m)])"

text \<open>
  Modelled from the spec: \<open>makeWrite\<close> and \<open>makeWriteArray\<close> of \<open>nvvk\<close>'s
  \<open>DescriptorSetBindings\<close> are not in this file. They are given the binding number and a
  data pointer, no length, and the spec fixes the length of a binding's array when the
  layout is created ("descriptor array binding lengths are fixed at layout-creation time
  from counts observed then"). So \<open>makeWrite\<close> yields the write of the one info it is given,
  and \<open>makeWriteArray\<close> a write whose count is the one the layout declares for the binding
  and whose data is the vector behind the pointer.
\<close>

definition makeWrite :: "uint32 \<Rightarrow> VkDescriptorBufferInfo \<Rightarrow> VkWriteDescriptorSet" where
  "makeWrite b info = WriteBuffer b info"

definition makeWriteArray ::
  "VkDescriptorSetLayoutBinding list \<Rightarrow> uint32 \<Rightarrow> VkDescriptorBufferInfo list
   \<Rightarrow> VkWriteDescriptorSet" where
  "makeWriteArray binds b infos = WriteBufferArray b (declaredCount binds b) infos"

definition makeWriteImageArray ::
  "VkDescriptorSetLayoutBinding list \<Rightarrow> uint32 \<Rightarrow> handle list \<Rightarrow> VkWriteDescriptorSet" where
  "makeWriteImageArray binds b infos = WriteImageArray b (declaredCount binds b) infos"

text \<open>The vector \<open>writes\<close> handed to \<open>vkUpdateDescriptorSets\<close>.\<close>

definition descriptorWrites :: "'mat HelloVulkan \<Rightarrow> VkWriteDescriptorSet list" where
  "descriptorWrites s =
     (let dbiUnif = wholeBuffer (m_cameraMat s);
          dbiSceneDesc = wholeBuffer (m_sceneDesc s);
          (dbiMat, dbiMatIdx, dbiVert, dbiIdx) = pushModelInfos (m_objModel s) ([], [], [], []);
          dbiMat1 = dbiMat @ [wholeBuffer (implMatBuf (m_implObjects s))];
          diit = map descriptor (m_textures s);
          dbiImplDesc = wholeBuffer (implBuf (m_implObjects s))
      in [makeWrite 0 dbiUnif, makeWrite 2 dbiSceneDesc,
          makeWriteArray (m_descSetLayoutBind s) 1 dbiMat1,
          makeWriteArray (m_descSetLayoutBind s) 4 dbiMatIdx,
          makeWriteArray (m_descSetLayoutBind s) 5 dbiVert,
          makeWriteArray (m_descSetLayoutBind s) 6 dbiIdx,
          makeWriteImageArray (m_descSetLayoutBind s) 3 diit,
          makeWrite 7 dbiImplDesc])"

definition updateDescriptorSet :: "'mat HelloVulkan \<Rightarrow> 'mat HelloVulkan" where
  "updateDescriptorSet s = s\<lparr>calls := calls s @ [VkUpdateDescriptorSets (descriptorWrites s)]\<rparr>"

text \<open>
  Reading a write: its binding, the count it carries (1 for a write of one descriptor), and
  the number of elements behind its data pointer.
\<close>

fun writeBinding :: "VkWriteDescriptorSet \<Rightarrow> uint32" where
  "writeBinding (WriteBuffer b x) = b"
| "writeBinding (WriteBufferArray b c xs) = b"
| "writeBinding (WriteImageArray b c xs) = b"

fun writeCount :: "VkWriteDescriptorSet \<Rightarrow> uint32 option" where
  "writeCount (WriteBuffer b x) = Some 1"
| "writeCount (WriteBufferArray b c xs) = c"
| "writeCount (WriteImageArray b c xs) = c"

fun vectorLength :: "VkWriteDescriptorSet \<Rightarrow> nat" where
  "vectorLength (WriteBuffer b x) = 1"
| "vectorLength (WriteBufferArray b c xs) = length xs"
| "vectorLength (WriteImageArray b c xs) = length xs"

text \<open>The buffer-array write for a binding: its count and the vector behind its pointer.\<close>

fun arrayAt ::
  "VkWriteDescriptorSet list \<Rightarrow> uint32 \<Rightarrow> (uint32 option \<times> VkDescriptorBufferInfo list) option" where
  "arrayAt [] b = None"
| "arrayAt (WriteBufferArray b' c xs # ws) b = (if b' = b then Some (c, xs) else arrayAt ws b)"
| "arrayAt (w # ws) b = arrayAt ws b"

text \<open>
  What \<open>vkUpdateDescriptorSets\<close> writes into the set for an array write: the first
  \<open>descriptorCount\<close> elements behind the pointer. A count beyond the vector reads past its
  end.
\<close>

definition transferred :: "uint32 option \<times> 'a list \<Rightarrow> error + 'a list" where
  "transferred w =
     (case fst w of
        None \<Rightarrow> Inl BindingNotDeclared
      | Some n \<Rightarrow> if unat n \<le> length (snd w) then Inr (take (unat n) (snd w)) else Inl OutOfRange)"

definition buffersWritten ::
  "VkWriteDescriptorSet list \<Rightarrow> uint32 \<Rightarrow> (error + VkDescriptorBufferInfo list) option" where
  "buffersWritten ws b = map_option transferred (arrayAt ws b)"

section \<open>Teardown\<close>

fun destroyModels :: "ObjModel list \<Rightarrow> call list" where
  "destroyModels [] = []"
| "destroyModels (m # ms) =
     [AllocDestroyBuffer (vertexBuffer m), AllocDestroyBuffer (indexBuffer m),
      AllocDestroyBuffer (matColorBuffer m), AllocDestroyBuffer (matIndexBuffer m)]
     @ destroyModels ms"

definition destroyCalls :: "'mat HelloVulkan \<Rightarrow> call list" where
  "destroyCalls s =
     [VkDestroyPipeline (m_graphicsPipeline s),
      VkDestroyPipelineLayout (m_pipelineLayout s),
      VkDestroyDescriptorPool (m_descPool s),
      VkDestroyDescriptorSetLayout (m_descSetLayout s),
      AllocDestroyBuffer (m_cameraMat s),
      AllocDestroyBuffer (m_sceneDesc s),
      AllocDestroyBuffer (implBuf (m_implObjects s)),
      AllocDestroyBuffer (implMatBuf (m_implObjects s))]
     @ destroyModels (m_objModel s)
     @ map AllocDestroyTexture (m_textures s)
     @ [OffscreenDestroy, RaytraceDestroy, AllocDeinit]"

definition destroyResources :: "'mat HelloVulkan \<Rightarrow> 'mat HelloVulkan" where
  "destroyResources s = s\<lparr>calls := calls s @ destroyCalls s\<rparr>"

text \<open>
  The release order the specification words as pipeline, layouts, pools, buffers, images:
  the rank of a release call in that order (the calls into the offscreen and ray-tracing
  components and the allocator's shutdown have none).
\<close>

fun spec_release_rank :: "call \<Rightarrow> nat option" where
  "spec_release_rank (VkDestroyPipeline h) = Some 0"
| "spec_release_rank (VkDestroyPipelineLayout h) = Some 1"
| "spec_release_rank (VkDestroyDescriptorSetLayout h) = Some 1"
| "spec_release_rank (VkDestroyDescriptorPool h) = Some 2"
| "spec_release_rank (AllocDestroyBuffer b) = Some 3"
| "spec_release_rank (AllocDestroyTexture t) = Some 4"
| "spec_release_rank c = None"

definition spec_release_order :: "call list \<Rightarrow> bool" where
  "spec_release_order cs \<longleftrightarrow> sorted (List.map_filter spec_release_rank cs)"

section \<open>Rasterization\<close>

text \<open>
  The loop of \<open>rasterize\<close>; \<open>m_objModel[inst.objIndex]\<close> is an unchecked read, an index
  outside the vector is the error \<open>OutOfRange\<close>.
\<close>

fun drawInstances :: "nat \<Rightarrow> ObjInstance list \<Rightarrow> 'mat HelloVulkan \<Rightarrow> error + 'mat HelloVulkan" where
  "drawInstances i [] s = Inr s"
| "drawInstances i (inst # rest) s =
     (if unat (objIndex inst) < length (m_objModel s)
      then (let model = m_objModel s ! unat (objIndex inst);
                pc = (m_pushConstants s)\<lparr>instanceId := of_nat i\<rparr>
            in drawInstances (Suc i) rest
                 (s\<lparr>m_pushConstants := pc,
                    calls := calls s @
                      [VkCmdPushConstants pc,
                       VkCmdBindVertexBuffers (buffer (vertexBuffer model)),
                       VkCmdBindIndexBuffer (buffer (indexBuffer model)),
                       VkCmdDrawIndexed (nbIndices model)]\<rparr>))
      else Inl OutOfRange)"

definition rasterize :: "'mat HelloVulkan \<Rightarrow> error + 'mat HelloVulkan" where
  "rasterize s =
     drawInstances 0 (m_objInstance s)
       (s\<lparr>calls := calls s @
            [VkCmdBindPipeline (m_graphicsPipeline s),
             VkCmdBindDescriptorSets (m_pipelineLayout s) (m_descSet s)]\<rparr>)"

text \<open>The indexed draws in a trace.\<close>

fun draws :: "call list \<Rightarrow> uint32 list" where
  "draws [] = []"
| "draws (VkCmdDrawIndexed n # cs) = n # draws cs"
| "draws (c # cs) = draws cs"

section \<open>Concrete inputs\<close>

text \<open>
  The application object at program start: no scene, \<open>updateFrame\<close> not yet called. The collaborators of the examples are stand-ins:
  matrix functions that return their argument, vector operators that work on the bit
  patterns, a decoder that finds no file.
\<close>

definition identity4 :: mat4f where
  "identity4 =
     \<lparr>a00 = 0x3F800000, a10 = 0, a20 = 0, a30 = 0,
      a01 = 0, a11 = 0x3F800000, a21 = 0, a31 = 0,
      a02 = 0, a12 = 0, a22 = 0x3F800000, a32 = 0,
      a03 = 0, a13 = 0, a23 = 0, a33 = 0x3F800000\<rparr>"

text \<open>
  The static \<open>refCamMatrix\<close> before the first call of \<open>updateFrame\<close>, taken as the
  zero-initialised storage of a static that the default constructor of \<open>nvmath::mat4f\<close>
  (not in this file) leaves as it is.
\<close>

definition zero4 :: mat4f where
  "zero4 =
     \<lparr>a00 = 0, a10 = 0, a20 = 0, a30 = 0, a01 = 0, a11 = 0, a21 = 0, a31 = 0,
      a02 = 0, a12 = 0, a22 = 0, a32 = 0, a03 = 0, a13 = 0, a23 = 0, a33 = 0\<rparr>"

definition emptyApp :: "nat HelloVulkan" where
  "emptyApp =
     \<lparr>m_objModel = [], m_objInstance = [], m_textures = [],
      m_implObjects = \<lparr>objImpl = [], implMat = [], implBuf = \<lparr>buffer = 0\<rparr>,
                        implMatBuf = \<lparr>buffer = 0\<rparr>\<rparr>,
      m_cameraMat = \<lparr>buffer = 0\<rparr>, m_sceneDesc = \<lparr>buffer = 0\<rparr>,
      m_descSetLayoutBind = [],
      m_descSetLayout = 0, m_descPool = 0, m_descSet = 0,
      m_pipelineLayout = 0, m_graphicsPipeline = 0,
      m_pushConstants = \<lparr>instanceId = 0, frame = 0\<rparr>,
      m_maxFrames = 100,
      refCamMatrix = zero4, refFov = None,
      fresh = 1, calls = []\<rparr>"

definition testExt :: "nat ext" where
  "testExt =
     \<lparr>nv_invert = (\<lambda>m. m), nv_transpose = (\<lambda>m. m), nv_pow_material = (\<lambda>m. m),
      vec_minus = (\<lambda>v r. case v of Vec3f a b c \<Rightarrow> Vec3f (a - r) (b - r) (c - r)),
      vec_plus = (\<lambda>v r. case v of Vec3f a b c \<Rightarrow> Vec3f (a + r) (b + r) (c + r)),
      stbi_load = (\<lambda>f. None),
      ObjImplicit_default =
        \<lparr>minimum = Vec3f 0 0 0, maximum = Vec3f 0 0 0, objType = eSphere, matId = 0\<rparr>,
      MaterialObj_default = 0\<rparr>"

definition testLoader :: "(nat, nat) ObjLoader" where
  "testLoader =
     \<lparr>ld_vertices = [0, 1, 2, 3, 4],
      ld_indices = [0, 1, 2, 2, 3, 4, 0, 2, 4, 1],
      ld_materials = [7],
      ld_matIndx = [0, 0, 0],
      ld_textures = []\<rparr>"

text \<open>A camera at rest with a 60 degree field of view, and one whose field of view is a NaN.\<close>

definition cam60 :: CameraManipulator where
  "cam60 = \<lparr>getMatrix = identity4, getFov = 0x42700000\<rparr>"


text \<open>One model loaded (ten indices, five vertices, no texture).\<close>

definition oneModelApp :: "nat HelloVulkan" where
  "oneModelApp = loadModel testExt testLoader identity4 emptyApp"

text \<open>The empty application after its first \<open>updateFrame\<close>, with the camera at rest.\<close>

definition restApp :: "nat HelloVulkan" where
  "restApp = updateFrame cam60 emptyApp"


text \<open>The one-model application after its first render tick.\<close>

definition tickedApp :: "nat HelloVulkan" where
  "tickedApp = raytrace cam60 oneModelApp"

text \<open>The same after \<open>resetFrame\<close>, which \<open>onResize\<close> calls.\<close>

definition readyApp :: "nat HelloVulkan" where
  "readyApp = resetFrame tickedApp"

text \<open>The layout is created for an empty scene, and one model is loaded afterwards.\<close>

definition staleApp :: "nat HelloVulkan" where
  "staleApp = loadModel testExt testLoader identity4 (createDescriptorSetLayout emptyApp)"

text \<open>The same with the implicit buffers created first.\<close>

definition lateModelApp :: "nat HelloVulkan" where
  "lateModelApp =
     loadModel testExt testLoader identity4
       (createDescriptorSetLayout (createImplictBuffers testExt emptyApp))"

section \<open>Frame accumulation: properties\<close>

lemma floats_inj: "floats a = floats b \<longleftrightarrow> a = b"
  by (cases a, cases b) (auto simp: floats_def)

lemma memcmp_eq:
  "length xs = n \<Longrightarrow> length ys = n \<Longrightarrow> (memcmp xs ys n = Some 0) = (xs = ys)"
  by (induction xs ys n rule: memcmp.induct) auto

lemma memcmp_defined:
  "length xs = n \<Longrightarrow> length ys = n \<Longrightarrow> memcmp xs ys n \<noteq> None"
  by (induction xs ys n rule: memcmp.induct) auto

lemma float_bytes_inj: "float_bytes a = float_bytes b \<longleftrightarrow> a = b"
proof
  assume h: "float_bytes a = float_bytes b"
  have b0: "(ucast a :: 8 word) = ucast b"
    and b1: "(ucast (drop_bit 8 a) :: 8 word) = ucast (drop_bit 8 b)"
    and b2: "(ucast (drop_bit 16 a) :: 8 word) = ucast (drop_bit 16 b)"
    and b3: "(ucast (drop_bit 24 a) :: 8 word) = ucast (drop_bit 24 b)"
    using h by (simp_all add: float_bytes_def)
  show "a = b"
  proof (rule bit_word_eqI)
    fix n assume n: "n < LENGTH(32)"
    consider "n < 8" | "8 \<le> n" "n < 16" | "16 \<le> n" "n < 24" | "24 \<le> n" "n < 32"
      using n by fastforce
    then show "bit a n = bit b n"
    proof cases
      case 1
      have "bit (ucast a :: 8 word) n = bit (ucast b :: 8 word) n" using b0 by simp
      then show ?thesis using 1 by (simp add: bit_ucast_iff)
    next
      case 2
      have "bit (ucast (drop_bit 8 a) :: 8 word) (n - 8) = bit (ucast (drop_bit 8 b) :: 8 word) (n - 8)"
        using b1 by simp
      then show ?thesis using 2 by (auto simp: bit_ucast_iff bit_drop_bit_eq)
    next
      case 3
      have "bit (ucast (drop_bit 16 a) :: 8 word) (n - 16) = bit (ucast (drop_bit 16 b) :: 8 word) (n - 16)"
        using b2 by simp
      then show ?thesis using 3 by (auto simp: bit_ucast_iff bit_drop_bit_eq)
    next
      case 4
      have "bit (ucast (drop_bit 24 a) :: 8 word) (n - 24) = bit (ucast (drop_bit 24 b) :: 8 word) (n - 24)"
        using b3 by simp
      then show ?thesis using 4 by (auto simp: bit_ucast_iff bit_drop_bit_eq)
    qed
  qed
qed simp

lemma float_bytes_length: "length (float_bytes f) = 4"
  by (simp add: float_bytes_def)

lemma concat_float_bytes_inj:
  "length xs = length ys \<Longrightarrow>
   concat (map float_bytes xs) = concat (map float_bytes ys) \<longleftrightarrow> xs = ys"
proof (induction xs ys rule: list_induct2)
  case Nil
  show ?case by simp
next
  case (Cons x xs y ys)
  have "float_bytes x @ concat (map float_bytes xs) = float_bytes y @ concat (map float_bytes ys)
        \<longleftrightarrow> float_bytes x = float_bytes y \<and> concat (map float_bytes xs) = concat (map float_bytes ys)"
    by (simp add: float_bytes_length)
  then show ?case using Cons.IH by (simp add: float_bytes_inj)
qed

lemma mat4f_bytes_length: "length (mat4f_bytes m) = 64"
  by (simp add: mat4f_bytes_def floats_def float_bytes_def)

lemma mat4f_bytes_inj: "mat4f_bytes a = mat4f_bytes b \<longleftrightarrow> a = b"
proof -
  have "length (floats a) = length (floats b)" by (simp add: floats_def)
  then show ?thesis
    by (simp add: mat4f_bytes_def concat_float_bytes_inj floats_inj)
qed

lemma memcmp_mat4f: "memcmp (mat4f_bytes a) (mat4f_bytes b) 64 = Some 0 \<longleftrightarrow> a = b"
  using memcmp_eq [of "mat4f_bytes a" 64 "mat4f_bytes b"]
  by (simp add: mat4f_bytes_length mat4f_bytes_inj)

lemma cameraChanged_iff:
  "cameraChanged cam s \<longleftrightarrow>
     refCamMatrix s \<noteq> getMatrix cam \<or> float_ne (storedFov cam s) (getFov cam)"
  by (simp add: cameraChanged_def memcmp_mat4f)

lemma float_ne_refl: "float_ne a a \<longleftrightarrow> isnan a"
  by (auto simp: float_ne_def)

lemma calls_updateFrame:
  "calls (updateFrame cam s) = calls s @ (if cameraChanged cam s then [ResetFrame] else [])"
  by (simp add: updateFrame_def resetFrame_def Let_def)

lemma pc_updateFrame:
  "m_pushConstants (updateFrame cam s) =
     (m_pushConstants s)\<lparr>frame := (if cameraChanged cam s then - 1 else frame (m_pushConstants s)) + 1\<rparr>"
  by (simp add: updateFrame_def resetFrame_def Let_def)

lemma maxFrames_updateFrame: "m_maxFrames (updateFrame cam s) = m_maxFrames s"
  by (simp add: updateFrame_def resetFrame_def Let_def)

lemma unchanged_updateFrame:
  "\<not> cameraChanged cam s \<Longrightarrow> \<not> cameraChanged cam (updateFrame cam s)"
  by (simp add: updateFrame_def cameraChanged_iff storedFov_def Let_def)

lemma scene_updateFrame:
  "m_objModel (updateFrame cam s) = m_objModel s"
  "m_objInstance (updateFrame cam s) = m_objInstance s"
  by (simp_all add: updateFrame_def resetFrame_def Let_def)

lemma sint_inc:
  assumes "sint (w :: 32 word) < 2 ^ 31 - 1"
  shows "sint (w + 1) = sint w + 1"
proof -
  have lo: "- (2 ^ 31) \<le> sint w"
    using sint_ge [of w] by simp
  have "sint (w + 1) = signed_take_bit 31 (sint w + 1)"
    by (simp add: sint_word_ariths)
  also have "\<dots> = sint w + 1"
    by (rule signed_take_bit_int_eq_self) (use lo assms in auto)
  finally show ?thesis .
qed

lemma sint_of_nat_small:
  assumes "k < 2 ^ 31"
  shows "sint (of_nat k :: 32 word) = int k"
proof -
  have "sint (of_nat k :: 32 word) = signed_take_bit 31 (int k)"
    by (simp add: signed_of_nat)
  also have "\<dots> = int k"
    by (rule signed_take_bit_int_eq_self) (use assms in auto)
  finally show ?thesis .
qed


lemma restApp_facts:
  "refCamMatrix restApp = identity4"
  "refFov restApp = Some 0x42700000"
  "m_pushConstants restApp = \<lparr>instanceId = 0, frame = 0\<rparr>"
  "calls restApp = [ResetFrame]"
  "\<not> cameraChanged cam60 restApp"
  "cameraChanged cam60 emptyApp"
  by (simp_all add: restApp_def updateFrame_def resetFrame_def Let_def cameraChanged_iff
      storedFov_def float_ne_def isnan_def cam60_def emptyApp_def identity4_def zero4_def)




text \<open>
  C4, as the code has it. On a tick where the camera changed the counter ends at 0 (set to
  \<open>-1\<close> by \<open>resetFrame\<close>, then incremented). On a tick where it did not, and the counter is
  below \<open>INT_MAX\<close>, the counter grows by exactly 1, so it does not decrease between resets.
\<close>

theorem updateFrame_increments:
  "(cameraChanged cam s \<longrightarrow> frame (m_pushConstants (updateFrame cam s)) = 0)
   \<and> (\<not> cameraChanged cam s \<and> sint (frame (m_pushConstants s)) < 2 ^ 31 - 1
      \<longrightarrow> sint (frame (m_pushConstants (updateFrame cam s)))
            = sint (frame (m_pushConstants s)) + 1)"
  by (simp add: pc_updateFrame sint_inc)

theorem updateFrame_increments_witness:
  "cameraChanged cam60 emptyApp
   \<and> frame (m_pushConstants (updateFrame cam60 emptyApp)) = 0
   \<and> \<not> cameraChanged cam60 restApp
   \<and> sint (frame (m_pushConstants restApp)) < 2 ^ 31 - 1
   \<and> sint (frame (m_pushConstants (updateFrame cam60 restApp))) = 1"
  using updateFrame_increments [of cam60 emptyApp] updateFrame_increments [of cam60 restApp]
  by (simp add: restApp_facts)

section \<open>The accumulation gate\<close>

text \<open>One tick of raytrace with an unchanged camera.\<close>

lemma raytrace_unchanged:
  assumes "\<not> cameraChanged cam s"
  shows "m_pushConstants (raytrace cam s) =
           (m_pushConstants s)\<lparr>frame := frame (m_pushConstants s) + 1\<rparr>"
    and "m_maxFrames (raytrace cam s) = m_maxFrames s"
    and "\<not> cameraChanged cam (raytrace cam s)"
    and "m_objModel (raytrace cam s) = m_objModel s"
    and "m_objInstance (raytrace cam s) = m_objInstance s"
    and "calls (raytrace cam s) =
           calls s @ (if sint (m_maxFrames s) \<le> sint (frame (m_pushConstants s) + 1) then []
                      else [RtRaytrace ((m_pushConstants s)\<lparr>frame := frame (m_pushConstants s) + 1\<rparr>)])"
  using assms unchanged_updateFrame [OF assms]
  by (simp_all add: raytrace_def Let_def pc_updateFrame maxFrames_updateFrame
      scene_updateFrame calls_updateFrame cameraChanged_iff storedFov_def)

text \<open>One tick of raytrace with a changed camera.\<close>

lemma raytrace_changed:
  assumes "cameraChanged cam s"
  shows "m_pushConstants (raytrace cam s) = (m_pushConstants s)\<lparr>frame := 0\<rparr>"
    and "m_maxFrames (raytrace cam s) = m_maxFrames s"
    and "cameraChanged cam (raytrace cam s) \<longleftrightarrow> isnan (getFov cam)"
    and "m_objModel (raytrace cam s) = m_objModel s"
    and "m_objInstance (raytrace cam s) = m_objInstance s"
    and "calls (raytrace cam s) =
           calls s @ [ResetFrame] @
             (if sint (m_maxFrames s) \<le> 0 then []
              else [RtRaytrace ((m_pushConstants s)\<lparr>frame := 0\<rparr>)])"
  using assms
  by (simp_all add: raytrace_def updateFrame_def resetFrame_def Let_def cameraChanged_iff
      storedFov_def float_ne_refl)

lemma ticks_Suc_shift: "ticks (Suc k) cam s = ticks k cam (raytrace cam s)"
  by (induction k) simp_all

text \<open>A run of ticks on none of which the camera compares changed.\<close>

lemma ticks_unchanged:
  assumes "\<not> cameraChanged cam s"
  shows "m_pushConstants (ticks k cam s) =
           (m_pushConstants s)\<lparr>frame := frame (m_pushConstants s) + of_nat k\<rparr>
         \<and> m_maxFrames (ticks k cam s) = m_maxFrames s
         \<and> \<not> cameraChanged cam (ticks k cam s)
         \<and> m_objModel (ticks k cam s) = m_objModel s
         \<and> m_objInstance (ticks k cam s) = m_objInstance s"
proof (induction k)
  case 0
  show ?case using assms by (cases "m_pushConstants s") simp
next
  case (Suc k)
  then show ?case by (simp add: raytrace_unchanged add.assoc)
qed

lemma ticks_unchanged_step:
  assumes "\<not> cameraChanged cam s"
  shows "calls (ticks (Suc k) cam s) =
           calls (ticks k cam s) @
             (if sint (m_maxFrames s) \<le> sint (frame (m_pushConstants s) + of_nat k + 1) then []
              else [RtRaytrace
                      ((m_pushConstants s)\<lparr>frame := frame (m_pushConstants s) + of_nat k + 1\<rparr>)])"
proof -
  note st = ticks_unchanged [OF assms, of k]
  have unch: "\<not> cameraChanged cam (ticks k cam s)" using st by simp
  show ?thesis
    using st by (simp add: raytrace_unchanged(6) [OF unch])
qed

text \<open>
  The start of a run counted from a reset: the counter is \<open>-1\<close> and the camera compares
  unchanged (the state \<open>resetFrame\<close> leaves), or the first tick finds the camera changed
  and resets; the field of view is no NaN, so that no later tick resets.
\<close>

lemma first_tick:
  assumes "frame (m_pushConstants s) = - 1 \<and> \<not> cameraChanged cam s
           \<or> cameraChanged cam s \<and> \<not> isnan (getFov cam)"
  shows "m_pushConstants (raytrace cam s) = (m_pushConstants s)\<lparr>frame := 0\<rparr>"
    and "m_maxFrames (raytrace cam s) = m_maxFrames s"
    and "\<not> cameraChanged cam (raytrace cam s)"
    and "m_objModel (raytrace cam s) = m_objModel s"
    and "m_objInstance (raytrace cam s) = m_objInstance s"
    and "calls (raytrace cam s) =
           calls s @ (if cameraChanged cam s then [ResetFrame] else []) @
             (if sint (m_maxFrames s) \<le> 0 then []
              else [RtRaytrace ((m_pushConstants s)\<lparr>frame := 0\<rparr>)])"
  using assms
  by (auto simp: raytrace_unchanged raytrace_changed)

lemma run_state:
  assumes "frame (m_pushConstants s) = - 1 \<and> \<not> cameraChanged cam s
           \<or> cameraChanged cam s \<and> \<not> isnan (getFov cam)"
  shows "m_pushConstants (ticks (Suc k) cam s) = (m_pushConstants s)\<lparr>frame := of_nat k\<rparr>
         \<and> m_maxFrames (ticks (Suc k) cam s) = m_maxFrames s
         \<and> \<not> cameraChanged cam (ticks (Suc k) cam s)
         \<and> m_objModel (ticks (Suc k) cam s) = m_objModel s
         \<and> m_objInstance (ticks (Suc k) cam s) = m_objInstance s"
  using ticks_unchanged [OF first_tick(3) [OF assms], of k]
  by (simp only: ticks_Suc_shift) (simp add: first_tick [OF assms])

lemma unchanged_tick_calls:
  assumes "\<not> cameraChanged cam t" and "m_pushConstants t = p\<lparr>frame := of_nat j\<rparr>"
    and "m_maxFrames t = 100" and "Suc j < 2 ^ 31"
  shows "calls (raytrace cam t) =
           calls t @ (if Suc j < 100 then [RtRaytrace (p\<lparr>frame := of_nat (Suc j)\<rparr>)] else [])"
proof -
  have "sint (of_nat j + 1 :: 32 word) = int (Suc j)"
    using sint_of_nat_small [OF assms(4)] by (simp add: add.commute)
  then show ?thesis
    by (simp add: raytrace_unchanged(6) [OF assms(1)] assms(2,3))
qed

lemma run_step:
  assumes start: "frame (m_pushConstants s) = - 1 \<and> \<not> cameraChanged cam s
           \<or> cameraChanged cam s \<and> \<not> isnan (getFov cam)"
    and "m_maxFrames s = 100" and "k < 2 ^ 31"
  shows "calls (ticks (Suc k) cam s) =
           calls (ticks k cam s)
           @ (if k = 0 \<and> cameraChanged cam s then [ResetFrame] else [])
           @ (if k < 100 then [RtRaytrace ((m_pushConstants s)\<lparr>frame := of_nat k\<rparr>)] else [])"
proof (cases k)
  case 0
  then show ?thesis
    using first_tick(6) [OF start] assms(2) by simp
next
  case (Suc j)
  have j: "Suc j < 2 ^ 31" using assms(3) Suc by simp
  note st = run_state [OF start, of j]
  have "calls (raytrace cam (ticks (Suc j) cam s)) =
          calls (ticks (Suc j) cam s) @
            (if Suc j < 100 then [RtRaytrace ((m_pushConstants s)\<lparr>frame := of_nat (Suc j)\<rparr>)]
             else [])"
    by (rule unchanged_tick_calls) (use st assms(2) j in simp_all)
  then have "calls (ticks (Suc (Suc j)) cam s) =
          calls (ticks (Suc j) cam s) @
            (if Suc j < 100 then [RtRaytrace ((m_pushConstants s)\<lparr>frame := of_nat (Suc j)\<rparr>)]
             else [])"
    by (simp only: ticks.simps)
  then show ?thesis using Suc by simp
qed

lemma run_calls:
  assumes start: "frame (m_pushConstants s) = - 1 \<and> \<not> cameraChanged cam s
           \<or> cameraChanged cam s \<and> \<not> isnan (getFov cam)"
    and "m_maxFrames s = 100" and "k < 2 ^ 31"
  shows "calls (ticks k cam s) =
           calls s
           @ (if 0 < k \<and> cameraChanged cam s then [ResetFrame] else [])
           @ map (\<lambda>i. RtRaytrace ((m_pushConstants s)\<lparr>frame := of_nat i\<rparr>)) [0..<min k 100]"
  using assms(3)
proof (induction k)
  case 0
  show ?case by simp
next
  case (Suc k)
  have k: "k < 2 ^ 31" using Suc.prems by simp
  note step = run_step [OF start assms(2) k]
  note ih = Suc.IH [OF k]
  show ?case
  proof (cases "k < 100")
    case True
    then have "min (Suc k) 100 = Suc k" "min k 100 = k" by simp_all
    with True show ?thesis using step ih by (cases "k = 0") simp_all
  next
    case False
    then have "min (Suc k) 100 = 100" "min k 100 = 100" by simp_all
    with False show ?thesis using step ih by simp
  qed
qed

lemma draws_append: "draws (a @ b) = draws a @ draws b"
  by (induction a rule: draws.induct) simp_all

lemma drawInstances_ok:
  assumes "\<forall>i\<in>set insts. unat (objIndex i) < length (m_objModel s)"
  shows "\<exists>t cs. drawInstances n insts s = Inr t \<and> calls t = calls s @ cs
           \<and> draws cs = map (\<lambda>i. nbIndices (m_objModel s ! unat (objIndex i))) insts"
  using assms
proof (induction insts arbitrary: n s)
  case Nil
  show ?case by simp
next
  case (Cons inst rest)
  let ?model = "m_objModel s ! unat (objIndex inst)"
  let ?pc = "(m_pushConstants s)\<lparr>instanceId := of_nat n\<rparr>"
  let ?cmds = "[VkCmdPushConstants ?pc, VkCmdBindVertexBuffers (buffer (vertexBuffer ?model)),
                VkCmdBindIndexBuffer (buffer (indexBuffer ?model)), VkCmdDrawIndexed (nbIndices ?model)]"
  let ?s1 = "s\<lparr>m_pushConstants := ?pc, calls := calls s @ ?cmds\<rparr>"
  have ok: "unat (objIndex inst) < length (m_objModel s)"
    using Cons.prems by simp
  have "\<forall>i\<in>set rest. unat (objIndex i) < length (m_objModel ?s1)"
    using Cons.prems by simp
  from Cons.IH [OF this, of "Suc n"]
  obtain t cs where t: "drawInstances (Suc n) rest ?s1 = Inr t" "calls t = calls ?s1 @ cs"
      "draws cs = map (\<lambda>i. nbIndices (m_objModel ?s1 ! unat (objIndex i))) rest"
    by blast
  have "drawInstances n (inst # rest) s = Inr t"
    using ok t(1) by (simp add: Let_def)
  moreover have "calls t = calls s @ (?cmds @ cs)"
    using t(2) by simp
  moreover have "draws (?cmds @ cs) =
      map (\<lambda>i. nbIndices (m_objModel s ! unat (objIndex i))) (inst # rest)"
    using t(3) by simp
  ultimately show ?case by blast
qed

lemma rasterize_ok:
  assumes "\<forall>i\<in>set (m_objInstance s). unat (objIndex i) < length (m_objModel s)"
  shows "\<exists>t cs. rasterize s = Inr t \<and> calls t = calls s @ cs
           \<and> draws cs = map (\<lambda>i. nbIndices (m_objModel s ! unat (objIndex i))) (m_objInstance s)"
proof -
  let ?s0 = "s\<lparr>calls := calls s @ [VkCmdBindPipeline (m_graphicsPipeline s),
                VkCmdBindDescriptorSets (m_pipelineLayout s) (m_descSet s)]\<rparr>"
  have "\<forall>i\<in>set (m_objInstance s). unat (objIndex i) < length (m_objModel ?s0)"
    using assms by simp
  from drawInstances_ok [OF this, of 0]
  obtain t cs where t: "drawInstances 0 (m_objInstance s) ?s0 = Inr t" "calls t = calls ?s0 @ cs"
      "draws cs = map (\<lambda>i. nbIndices (m_objModel ?s0 ! unat (objIndex i))) (m_objInstance s)"
    by blast
  let ?pre = "[VkCmdBindPipeline (m_graphicsPipeline s),
               VkCmdBindDescriptorSets (m_pipelineLayout s) (m_descSet s)]"
  have "rasterize s = Inr t" using t(1) by (simp add: rasterize_def)
  moreover have "calls t = calls s @ (?pre @ cs)" using t(2) by simp
  moreover have "draws (?pre @ cs) =
      map (\<lambda>i. nbIndices (m_objModel s ! unat (objIndex i))) (m_objInstance s)"
    using t(3) by simp
  ultimately show ?thesis by blast
qed

lemma oneModelApp_scene:
  "m_descSetLayoutBind oneModelApp = []"
  "length (m_objModel oneModelApp) = 1"
  "length (m_textures oneModelApp) = 1"
  "map objIndex (m_objInstance oneModelApp) = [0]"
  "map nbIndices (m_objModel oneModelApp) = [10]"
  "m_pushConstants oneModelApp = \<lparr>instanceId = 0, frame = 0\<rparr>"
  "m_maxFrames oneModelApp = 100"
  "cameraChanged cam60 oneModelApp"
  "\<not> isnan (getFov cam60)"
  by (simp_all add: oneModelApp_def loadModel_def createBuffer_def createTextureImages_def
      pushTexture_def testLoader_def testExt_def emptyApp_def Let_def cameraChanged_iff
      cam60_def identity4_def zero4_def isnan_def)

lemma tickedApp_facts:
  "m_pushConstants tickedApp = \<lparr>instanceId = 0, frame = 0\<rparr>"
  "m_maxFrames tickedApp = 100"
  "\<not> cameraChanged cam60 tickedApp"
  "map objIndex (m_objInstance tickedApp) = [0]"
  "length (m_objModel tickedApp) = 1"
  "map nbIndices (m_objModel tickedApp) = [10]"
  using raytrace_changed [OF oneModelApp_scene(8)]
  by (simp_all add: tickedApp_def oneModelApp_scene)

lemma readyApp_facts:
  "m_pushConstants readyApp = \<lparr>instanceId = 0, frame = - 1\<rparr>"
  "m_maxFrames readyApp = 100"
  "\<not> cameraChanged cam60 readyApp"
  "map objIndex (m_objInstance readyApp) = [0]"
  "length (m_objModel readyApp) = 1"
  "map nbIndices (m_objModel readyApp) = [10]"
  using tickedApp_facts
  by (simp_all add: readyApp_def resetFrame_def cameraChanged_iff storedFov_def)

text \<open>
  C4 as stated fails at the top of the counter's range. The empty application makes its
  first tick and the camera stays at rest; \<open>2^31 - 1\<close> ticks later the camera still compares
  unchanged and the counter is \<open>INT_MAX\<close>; the next \<open>updateFrame\<close> leaves it at \<open>INT_MIN\<close>.
\<close>

theorem updateFrame_wraps_at_INT_MAX:
  "\<not> cameraChanged cam60 (ticks 2147483647 cam60 restApp)
   \<and> sint (frame (m_pushConstants (ticks 2147483647 cam60 restApp))) = 2147483647
   \<and> sint (frame (m_pushConstants (updateFrame cam60 (ticks 2147483647 cam60 restApp))))
       = - 2147483648"
proof -
  note st = ticks_unchanged [OF restApp_facts(5), of 2147483647]
  have unch: "\<not> cameraChanged cam60 (ticks 2147483647 cam60 restApp)"
    using st by simp
  have fr: "frame (m_pushConstants (ticks 2147483647 cam60 restApp)) = 0x7FFFFFFF"
    using st by (simp add: restApp_facts)
  have "sint (frame (m_pushConstants (updateFrame cam60 (ticks 2147483647 cam60 restApp))))
          = - 2147483648"
    using unch by (simp add: pc_updateFrame fr)
  with unch fr show ?thesis by simp
qed

text \<open>
  C3, as the code has it. \<open>m_maxFrames\<close> is 100 and the run is counted from a reset: before
  tick 1 the counter is \<open>-1\<close> and the camera compares unchanged (as \<open>resetFrame\<close> leaves
  it), or tick 1 itself finds the camera changed and resets (as the first tick after program
  start does); the camera compares unchanged on every later tick. Tick \<open>k + 1\<close> of the first
  200 then hands the dispatch to the ray tracer, with frame value \<open>k\<close>, exactly when
  \<open>k < 100\<close>: ticks 1 to 100 dispatch with frames 0 to 99, every tick from 101 on returns
  without dispatching. The 200 ticks issue these 100 dispatches and, beside the reset of
  tick 1, no other call. \<open>rasterize\<close> after any of these ticks succeeds and issues one indexed
  draw per instance, whatever the counter is.
\<close>

theorem raytrace_gate_200_ticks:
  assumes "m_maxFrames s = 100"
    and "frame (m_pushConstants s) = - 1 \<and> \<not> cameraChanged cam s
         \<or> cameraChanged cam s \<and> \<not> isnan (getFov cam)"
    and "\<forall>i\<in>set (m_objInstance s). unat (objIndex i) < length (m_objModel s)"
    and "k < 200"
  shows "calls (ticks (Suc k) cam s) =
           calls (ticks k cam s)
           @ (if k = 0 \<and> cameraChanged cam s then [ResetFrame] else [])
           @ (if k < 100 then [RtRaytrace ((m_pushConstants s)\<lparr>frame := of_nat k\<rparr>)] else [])
         \<and> calls (ticks 200 cam s) =
             calls s
             @ (if cameraChanged cam s then [ResetFrame] else [])
             @ map (\<lambda>i. RtRaytrace ((m_pushConstants s)\<lparr>frame := of_nat i\<rparr>)) [0..<100]
         \<and> (\<exists>t cs. rasterize (ticks (Suc k) cam s) = Inr t
               \<and> calls t = calls (ticks (Suc k) cam s) @ cs
               \<and> draws cs = map (\<lambda>i. nbIndices (m_objModel s ! unat (objIndex i)))
                               (m_objInstance s))"
proof -
  have k: "k < 2 ^ 31" using assms(4) by simp
  note step = run_step [OF assms(2,1) k]
  have total: "calls (ticks 200 cam s) =
             calls s
             @ (if cameraChanged cam s then [ResetFrame] else [])
             @ map (\<lambda>i. RtRaytrace ((m_pushConstants s)\<lparr>frame := of_nat i\<rparr>)) [0..<100]"
    using run_calls [OF assms(2,1), of 200] by simp
  note st = run_state [OF assms(2), of k]
  have "\<forall>i\<in>set (m_objInstance (ticks (Suc k) cam s)).
          unat (objIndex i) < length (m_objModel (ticks (Suc k) cam s))"
    using st assms(3) by simp
  from rasterize_ok [OF this] st
  have rast: "\<exists>t cs. rasterize (ticks (Suc k) cam s) = Inr t
               \<and> calls t = calls (ticks (Suc k) cam s) @ cs
               \<and> draws cs = map (\<lambda>i. nbIndices (m_objModel s ! unat (objIndex i)))
                               (m_objInstance s)"
    by simp
  from step total rast show ?thesis by blast
qed

lemma one_instance_scene:
  assumes "map objIndex (m_objInstance s) = [0]" and "length (m_objModel s) = 1"
    and "map nbIndices (m_objModel s) = [n]"
  shows "\<forall>i\<in>set (m_objInstance s). unat (objIndex i) < length (m_objModel s)"
    and "map (\<lambda>i. nbIndices (m_objModel s ! unat (objIndex i))) (m_objInstance s) = [n]"
proof -
  obtain m where m: "m_objModel s = [m]"
    using assms(2) by (cases "m_objModel s") auto
  obtain i where i: "m_objInstance s = [i]"
    using assms(1) by (cases "m_objInstance s") auto
  show "\<forall>i\<in>set (m_objInstance s). unat (objIndex i) < length (m_objModel s)"
    using assms(1) by (simp add: m i)
  show "map (\<lambda>i. nbIndices (m_objModel s ! unat (objIndex i))) (m_objInstance s) = [n]"
    using assms(1,3) by (simp add: m i)
qed

theorem raytrace_gate_200_ticks_witness:
  "m_maxFrames oneModelApp = 100
   \<and> cameraChanged cam60 oneModelApp \<and> \<not> isnan (getFov cam60)
   \<and> map objIndex (m_objInstance oneModelApp) = [0] \<and> length (m_objModel oneModelApp) = 1
   \<and> calls (ticks 1 cam60 oneModelApp) =
        calls oneModelApp @ [ResetFrame, RtRaytrace \<lparr>instanceId = 0, frame = 0\<rparr>]
   \<and> calls (ticks 100 cam60 oneModelApp) =
        calls (ticks 99 cam60 oneModelApp) @ [RtRaytrace \<lparr>instanceId = 0, frame = 99\<rparr>]
   \<and> calls (ticks 101 cam60 oneModelApp) = calls (ticks 100 cam60 oneModelApp)
   \<and> (\<exists>t cs. rasterize (ticks 101 cam60 oneModelApp) = Inr t
         \<and> calls t = calls (ticks 101 cam60 oneModelApp) @ cs \<and> draws cs = [10])
   \<and> m_maxFrames readyApp = 100
   \<and> frame (m_pushConstants readyApp) = - 1 \<and> \<not> cameraChanged cam60 readyApp
   \<and> map objIndex (m_objInstance readyApp) = [0] \<and> length (m_objModel readyApp) = 1
   \<and> calls (ticks 100 cam60 readyApp) =
        calls (ticks 99 cam60 readyApp) @ [RtRaytrace \<lparr>instanceId = 0, frame = 99\<rparr>]
   \<and> calls (ticks 101 cam60 readyApp) = calls (ticks 100 cam60 readyApp)"
proof -
  note o = oneModelApp_scene
  note scene1 = one_instance_scene [OF o(4) o(2) o(5)]
  have start1: "frame (m_pushConstants oneModelApp) = - 1 \<and> \<not> cameraChanged cam60 oneModelApp
         \<or> cameraChanged cam60 oneModelApp \<and> \<not> isnan (getFov cam60)"
    using o(8,9) by simp
  note a0 = raytrace_gate_200_ticks [OF o(7) start1 scene1(1), of 0]
  note a99 = raytrace_gate_200_ticks [OF o(7) start1 scene1(1), of 99]
  note a100 = raytrace_gate_200_ticks [OF o(7) start1 scene1(1), of 100]
  from a0 [THEN conjunct1] have t1: "calls (ticks 1 cam60 oneModelApp) =
        calls oneModelApp @ [ResetFrame, RtRaytrace \<lparr>instanceId = 0, frame = 0\<rparr>]"
    by (simp add: o)
  from a99 [THEN conjunct1] have t100: "calls (ticks 100 cam60 oneModelApp) =
        calls (ticks 99 cam60 oneModelApp) @ [RtRaytrace \<lparr>instanceId = 0, frame = 99\<rparr>]"
    by (simp add: o)
  from a100 [THEN conjunct1] have t101:
    "calls (ticks 101 cam60 oneModelApp) = calls (ticks 100 cam60 oneModelApp)"
    by simp
  from a100 [THEN conjunct2, THEN conjunct2]
  have r101: "\<exists>t cs. rasterize (ticks 101 cam60 oneModelApp) = Inr t
         \<and> calls t = calls (ticks 101 cam60 oneModelApp) @ cs \<and> draws cs = [10]"
    by (simp add: scene1(2))
  note r = readyApp_facts
  note scene2 = one_instance_scene [OF r(4) r(5) r(6)]
  have fr: "frame (m_pushConstants readyApp) = - 1" by (simp add: r(1))
  have start2: "frame (m_pushConstants readyApp) = - 1 \<and> \<not> cameraChanged cam60 readyApp
         \<or> cameraChanged cam60 readyApp \<and> \<not> isnan (getFov cam60)"
    using fr r(3) by simp
  note b99 = raytrace_gate_200_ticks [OF r(2) start2 scene2(1), of 99]
  note b100 = raytrace_gate_200_ticks [OF r(2) start2 scene2(1), of 100]
  from b99 [THEN conjunct1] have u100: "calls (ticks 100 cam60 readyApp) =
        calls (ticks 99 cam60 readyApp) @ [RtRaytrace \<lparr>instanceId = 0, frame = 99\<rparr>]"
    by (simp add: r)
  from b100 [THEN conjunct1] have u101:
    "calls (ticks 101 cam60 readyApp) = calls (ticks 100 cam60 readyApp)"
    by (simp add: r)
  show ?thesis
    by (intro conjI o(7) o(8) o(9) o(4) o(2) t1 t100 t101 r101 r(2) fr r(3) r(4) r(5) u100 u101)
qed

text \<open>
  C3 as stated fails when the run is not counted from a reset. The one-model application
  has made its first tick (counter 0) and the camera then compares unchanged for 200 ticks
  with \<open>m_maxFrames = 100\<close>: tick 99 dispatches with frame value 99 and tick 100 does not
  dispatch.
\<close>

theorem raytrace_gate_counter_at_0:
  "\<not> cameraChanged cam60 tickedApp
   \<and> m_maxFrames tickedApp = 100
   \<and> frame (m_pushConstants tickedApp) = 0
   \<and> \<not> cameraChanged cam60 (ticks 200 cam60 tickedApp)
   \<and> calls (ticks 99 cam60 tickedApp) =
        calls (ticks 98 cam60 tickedApp) @ [RtRaytrace \<lparr>instanceId = 0, frame = 99\<rparr>]
   \<and> calls (ticks 100 cam60 tickedApp) = calls (ticks 99 cam60 tickedApp)"
proof -
  note f = tickedApp_facts
  have fr: "frame (m_pushConstants tickedApp) = 0" by (simp add: f(1))
  have u: "\<not> cameraChanged cam60 (ticks 200 cam60 tickedApp)"
    using ticks_unchanged [OF f(3), of 200] by simp
  have a: "calls (ticks 99 cam60 tickedApp) =
        calls (ticks 98 cam60 tickedApp) @ [RtRaytrace \<lparr>instanceId = 0, frame = 99\<rparr>]"
    using ticks_unchanged_step [OF f(3), of 98] by (simp add: f)
  have b: "calls (ticks 100 cam60 tickedApp) = calls (ticks 99 cam60 tickedApp)"
    using ticks_unchanged_step [OF f(3), of 99] by (simp add: f)
  show ?thesis
    by (intro conjI f(3) f(2) fr u a b)
qed

section \<open>Descriptor binding builder: properties\<close>

lemma pushModelInfos_eq:
  "pushModelInfos ms (a, b, c, d) =
     (a @ map (\<lambda>m. wholeBuffer (matColorBuffer m)) ms,
      b @ map (\<lambda>m. wholeBuffer (matIndexBuffer m)) ms,
      c @ map (\<lambda>m. wholeBuffer (vertexBuffer m)) ms,
      d @ map (\<lambda>m. wholeBuffer (indexBuffer m)) ms)"
  by (induction ms arbitrary: a b c d) simp_all

lemma descriptorWrites_eq:
  "descriptorWrites s =
     [WriteBuffer 0 (wholeBuffer (m_cameraMat s)),
      WriteBuffer 2 (wholeBuffer (m_sceneDesc s)),
      WriteBufferArray 1 (declaredCount (m_descSetLayoutBind s) 1)
        (map (\<lambda>m. wholeBuffer (matColorBuffer m)) (m_objModel s)
         @ [wholeBuffer (implMatBuf (m_implObjects s))]),
      WriteBufferArray 4 (declaredCount (m_descSetLayoutBind s) 4)
        (map (\<lambda>m. wholeBuffer (matIndexBuffer m)) (m_objModel s)),
      WriteBufferArray 5 (declaredCount (m_descSetLayoutBind s) 5)
        (map (\<lambda>m. wholeBuffer (vertexBuffer m)) (m_objModel s)),
      WriteBufferArray 6 (declaredCount (m_descSetLayoutBind s) 6)
        (map (\<lambda>m. wholeBuffer (indexBuffer m)) (m_objModel s)),
      WriteImageArray 3 (declaredCount (m_descSetLayoutBind s) 3) (map descriptor (m_textures s)),
      WriteBuffer 7 (wholeBuffer (implBuf (m_implObjects s)))]"
  by (simp add: descriptorWrites_def pushModelInfos_eq makeWrite_def makeWriteArray_def
      makeWriteImageArray_def)

lemma layout_appends:
  "map (\<lambda>b. (binding b, descriptorCount b)) (m_descSetLayoutBind (createDescriptorSetLayout s)) =
     map (\<lambda>b. (binding b, descriptorCount b)) (m_descSetLayoutBind s)
     @ [(0, 1), (1, of_nat (length (m_objModel s)) + 1), (2, 1), (3, of_nat (length (m_textures s))),
        (4, of_nat (length (m_objModel s))), (5, of_nat (length (m_objModel s))),
        (6, of_nat (length (m_objModel s))), (7, 1)]"
  by (simp add: createDescriptorSetLayout_def addBinding_def Let_def)

lemma declaredCount_map:
  "declaredCount bs b = map_of (map (\<lambda>x. (binding x, descriptorCount x)) bs) b"
  by (induction bs) simp_all

lemma unat_of_nat32: "n < 2 ^ 32 \<Longrightarrow> unat (of_nat n :: 32 word) = n"
  by (simp add: unat_of_nat)

lemma unat_of_nat32_Suc: "n + 1 < 2 ^ 32 \<Longrightarrow> unat (of_nat n + 1 :: 32 word) = n + 1"
  using unat_of_nat32 [of "n + 1"] by (simp add: add.commute)

text \<open>
  The counts found in layout bindings that were created, from an empty binding list, in a
  state \<open>s0\<close>.
\<close>

lemma fresh_layout_counts:
  assumes "m_descSetLayoutBind s0 = []"
    and "m_descSetLayoutBind s = m_descSetLayoutBind (createDescriptorSetLayout s0)"
  shows "declaredCount (m_descSetLayoutBind s) 1 = Some (of_nat (length (m_objModel s0)) + 1)"
    and "declaredCount (m_descSetLayoutBind s) 3 = Some (of_nat (length (m_textures s0)))"
    and "declaredCount (m_descSetLayoutBind s) 4 = Some (of_nat (length (m_objModel s0)))"
    and "declaredCount (m_descSetLayoutBind s) 5 = Some (of_nat (length (m_objModel s0)))"
    and "declaredCount (m_descSetLayoutBind s) 6 = Some (of_nat (length (m_objModel s0)))"
  using assms by (simp_all add: declaredCount_map layout_appends)

text \<open>
  C1, as the code has it. For a scene with \<open>N\<close> models, the vector \<open>updateDescriptorSet\<close>
  builds for binding 1 holds, in model order, one entry per model naming that model's
  material-colour buffer, then one entry naming the implicit-material buffer; the vectors
  for bindings 4, 5 and 6 hold one entry per model, in model order, naming its
  material-index, vertex and index buffer. Each of these writes carries the count the layout
  declares for its binding. When the layout bindings are those created, from an empty
  binding list, in a state with the same number of models, the array written at binding 1
  has exactly \<open>N + 1\<close> entries, the whole vector, and the arrays written at bindings 4, 5 and
  6 have exactly \<open>N\<close>.
\<close>

theorem updateDescriptorSet_arrays:
  "calls (updateDescriptorSet s) = calls s @ [VkUpdateDescriptorSets (descriptorWrites s)]
   \<and> arrayAt (descriptorWrites s) 1 =
       Some (declaredCount (m_descSetLayoutBind s) 1,
             map (\<lambda>m. \<lparr>dbi_buffer = buffer (matColorBuffer m), dbi_offset = 0,
                        dbi_range = VK_WHOLE_SIZE\<rparr>) (m_objModel s)
             @ [\<lparr>dbi_buffer = buffer (implMatBuf (m_implObjects s)), dbi_offset = 0,
                 dbi_range = VK_WHOLE_SIZE\<rparr>])
   \<and> arrayAt (descriptorWrites s) 4 =
       Some (declaredCount (m_descSetLayoutBind s) 4,
             map (\<lambda>m. \<lparr>dbi_buffer = buffer (matIndexBuffer m), dbi_offset = 0,
                        dbi_range = VK_WHOLE_SIZE\<rparr>) (m_objModel s))
   \<and> arrayAt (descriptorWrites s) 5 =
       Some (declaredCount (m_descSetLayoutBind s) 5,
             map (\<lambda>m. \<lparr>dbi_buffer = buffer (vertexBuffer m), dbi_offset = 0,
                        dbi_range = VK_WHOLE_SIZE\<rparr>) (m_objModel s))
   \<and> arrayAt (descriptorWrites s) 6 =
       Some (declaredCount (m_descSetLayoutBind s) 6,
             map (\<lambda>m. \<lparr>dbi_buffer = buffer (indexBuffer m), dbi_offset = 0,
                        dbi_range = VK_WHOLE_SIZE\<rparr>) (m_objModel s))
   \<and> (m_descSetLayoutBind s0 = []
       \<and> m_descSetLayoutBind s = m_descSetLayoutBind (createDescriptorSetLayout s0)
       \<and> length (m_objModel s0) = length (m_objModel s)
       \<and> length (m_objModel s) + 1 < 2 ^ 32
      \<longrightarrow> (\<exists>dbiMat dbiMatIdx dbiVert dbiIdx.
            buffersWritten (descriptorWrites s) 1 = Some (Inr dbiMat)
            \<and> buffersWritten (descriptorWrites s) 4 = Some (Inr dbiMatIdx)
            \<and> buffersWritten (descriptorWrites s) 5 = Some (Inr dbiVert)
            \<and> buffersWritten (descriptorWrites s) 6 = Some (Inr dbiIdx)
            \<and> length dbiMat = length (m_objModel s) + 1
            \<and> take (length (m_objModel s)) dbiMat =
                map (\<lambda>m. \<lparr>dbi_buffer = buffer (matColorBuffer m), dbi_offset = 0,
                           dbi_range = VK_WHOLE_SIZE\<rparr>) (m_objModel s)
            \<and> last dbiMat = \<lparr>dbi_buffer = buffer (implMatBuf (m_implObjects s)), dbi_offset = 0,
                              dbi_range = VK_WHOLE_SIZE\<rparr>
            \<and> length dbiMatIdx = length (m_objModel s)
            \<and> dbiMatIdx = map (\<lambda>m. \<lparr>dbi_buffer = buffer (matIndexBuffer m), dbi_offset = 0,
                                       dbi_range = VK_WHOLE_SIZE\<rparr>) (m_objModel s)
            \<and> length dbiVert = length (m_objModel s)
            \<and> dbiVert = map (\<lambda>m. \<lparr>dbi_buffer = buffer (vertexBuffer m), dbi_offset = 0,
                                     dbi_range = VK_WHOLE_SIZE\<rparr>) (m_objModel s)
            \<and> length dbiIdx = length (m_objModel s)
            \<and> dbiIdx = map (\<lambda>m. \<lparr>dbi_buffer = buffer (indexBuffer m), dbi_offset = 0,
                                    dbi_range = VK_WHOLE_SIZE\<rparr>) (m_objModel s)))"
proof -
  have a: "calls (updateDescriptorSet s) = calls s @ [VkUpdateDescriptorSets (descriptorWrites s)]"
    by (simp add: updateDescriptorSet_def)
  have b1: "arrayAt (descriptorWrites s) 1 =
       Some (declaredCount (m_descSetLayoutBind s) 1,
             map (\<lambda>m. \<lparr>dbi_buffer = buffer (matColorBuffer m), dbi_offset = 0,
                        dbi_range = VK_WHOLE_SIZE\<rparr>) (m_objModel s)
             @ [\<lparr>dbi_buffer = buffer (implMatBuf (m_implObjects s)), dbi_offset = 0,
                 dbi_range = VK_WHOLE_SIZE\<rparr>])"
    by (simp add: descriptorWrites_eq wholeBuffer_def)
  have b4: "arrayAt (descriptorWrites s) 4 =
       Some (declaredCount (m_descSetLayoutBind s) 4,
             map (\<lambda>m. \<lparr>dbi_buffer = buffer (matIndexBuffer m), dbi_offset = 0,
                        dbi_range = VK_WHOLE_SIZE\<rparr>) (m_objModel s))"
    by (simp add: descriptorWrites_eq wholeBuffer_def)
  have b5: "arrayAt (descriptorWrites s) 5 =
       Some (declaredCount (m_descSetLayoutBind s) 5,
             map (\<lambda>m. \<lparr>dbi_buffer = buffer (vertexBuffer m), dbi_offset = 0,
                        dbi_range = VK_WHOLE_SIZE\<rparr>) (m_objModel s))"
    by (simp add: descriptorWrites_eq wholeBuffer_def)
  have b6: "arrayAt (descriptorWrites s) 6 =
       Some (declaredCount (m_descSetLayoutBind s) 6,
             map (\<lambda>m. \<lparr>dbi_buffer = buffer (indexBuffer m), dbi_offset = 0,
                        dbi_range = VK_WHOLE_SIZE\<rparr>) (m_objModel s))"
    by (simp add: descriptorWrites_eq wholeBuffer_def)
  have c: "\<exists>dbiMat dbiMatIdx dbiVert dbiIdx.
            buffersWritten (descriptorWrites s) 1 = Some (Inr dbiMat)
            \<and> buffersWritten (descriptorWrites s) 4 = Some (Inr dbiMatIdx)
            \<and> buffersWritten (descriptorWrites s) 5 = Some (Inr dbiVert)
            \<and> buffersWritten (descriptorWrites s) 6 = Some (Inr dbiIdx)
            \<and> length dbiMat = length (m_objModel s) + 1
            \<and> take (length (m_objModel s)) dbiMat =
                map (\<lambda>m. \<lparr>dbi_buffer = buffer (matColorBuffer m), dbi_offset = 0,
                           dbi_range = VK_WHOLE_SIZE\<rparr>) (m_objModel s)
            \<and> last dbiMat = \<lparr>dbi_buffer = buffer (implMatBuf (m_implObjects s)), dbi_offset = 0,
                              dbi_range = VK_WHOLE_SIZE\<rparr>
            \<and> length dbiMatIdx = length (m_objModel s)
            \<and> dbiMatIdx = map (\<lambda>m. \<lparr>dbi_buffer = buffer (matIndexBuffer m), dbi_offset = 0,
                                       dbi_range = VK_WHOLE_SIZE\<rparr>) (m_objModel s)
            \<and> length dbiVert = length (m_objModel s)
            \<and> dbiVert = map (\<lambda>m. \<lparr>dbi_buffer = buffer (vertexBuffer m), dbi_offset = 0,
                                     dbi_range = VK_WHOLE_SIZE\<rparr>) (m_objModel s)
            \<and> length dbiIdx = length (m_objModel s)
            \<and> dbiIdx = map (\<lambda>m. \<lparr>dbi_buffer = buffer (indexBuffer m), dbi_offset = 0,
                                    dbi_range = VK_WHOLE_SIZE\<rparr>) (m_objModel s)"
    if h: "m_descSetLayoutBind s0 = []"
      "m_descSetLayoutBind s = m_descSetLayoutBind (createDescriptorSetLayout s0)"
      "length (m_objModel s0) = length (m_objModel s)"
      "length (m_objModel s) + 1 < 2 ^ 32"
  proof -
    have n: "length (m_objModel s) < 2 ^ 32" using h(4) by simp
    note cnt = fresh_layout_counts [OF h(1,2)]
    show ?thesis
      using unat_of_nat32 [OF n] unat_of_nat32_Suc [OF h(4)]
      by (simp add: buffersWritten_def transferred_def b1 b4 b5 b6 cnt h(3))
  qed
  from a b1 b4 b5 b6 c show ?thesis by blast
qed

lemma layout_scene:
  "m_objModel (createDescriptorSetLayout s) = m_objModel s"
  "m_textures (createDescriptorSetLayout s) = m_textures s"
  "m_implObjects (createDescriptorSetLayout s) = m_implObjects s"
  by (simp_all add: createDescriptorSetLayout_def Let_def)

lemma oneModelApp_buffers:
  "map (\<lambda>m. buffer (matColorBuffer m)) (m_objModel oneModelApp) = [3]"
  "map (\<lambda>m. buffer (matIndexBuffer m)) (m_objModel oneModelApp) = [4]"
  "map (\<lambda>m. buffer (vertexBuffer m)) (m_objModel oneModelApp) = [1]"
  "map (\<lambda>m. buffer (indexBuffer m)) (m_objModel oneModelApp) = [2]"
  "buffer (implMatBuf (m_implObjects oneModelApp)) = 0"
  by (simp_all add: oneModelApp_def loadModel_def createBuffer_def createTextureImages_def
      pushTexture_def testLoader_def testExt_def emptyApp_def Let_def)

lemma snoc_split: "length xs = Suc n \<Longrightarrow> xs = take n xs @ [last xs]"
  by (metis append_butlast_last_id butlast_conv_take diff_Suc_1 length_0_conv nat.distinct(1))

theorem updateDescriptorSet_arrays_witness:
  "m_descSetLayoutBind oneModelApp = []
   \<and> length (m_objModel oneModelApp) + 1 < 2 ^ 32
   \<and> map_option (map_sum id (map dbi_buffer))
        (buffersWritten (descriptorWrites (createDescriptorSetLayout oneModelApp)) 1)
      = Some (Inr [3, 0])
   \<and> map_option (map_sum id (map dbi_buffer))
        (buffersWritten (descriptorWrites (createDescriptorSetLayout oneModelApp)) 4)
      = Some (Inr [4])
   \<and> map_option (map_sum id (map dbi_buffer))
        (buffersWritten (descriptorWrites (createDescriptorSetLayout oneModelApp)) 5)
      = Some (Inr [1])
   \<and> map_option (map_sum id (map dbi_buffer))
        (buffersWritten (descriptorWrites (createDescriptorSetLayout oneModelApp)) 6)
      = Some (Inr [2])"
proof -
  let ?s = "createDescriptorSetLayout oneModelApp"
  note o = oneModelApp_scene
  have h: "m_descSetLayoutBind oneModelApp = []"
    "m_descSetLayoutBind ?s = m_descSetLayoutBind (createDescriptorSetLayout oneModelApp)"
    "length (m_objModel oneModelApp) = length (m_objModel ?s)"
    "length (m_objModel ?s) + 1 < 2 ^ 32"
    by (simp_all add: o layout_scene)
  from updateDescriptorSet_arrays [of ?s oneModelApp] h
  obtain dbiMat dbiMatIdx dbiVert dbiIdx where w:
    "buffersWritten (descriptorWrites ?s) 1 = Some (Inr dbiMat)"
    "buffersWritten (descriptorWrites ?s) 4 = Some (Inr dbiMatIdx)"
    "buffersWritten (descriptorWrites ?s) 5 = Some (Inr dbiVert)"
    "buffersWritten (descriptorWrites ?s) 6 = Some (Inr dbiIdx)"
    "length dbiMat = length (m_objModel ?s) + 1"
    "take (length (m_objModel ?s)) dbiMat =
       map (\<lambda>m. \<lparr>dbi_buffer = buffer (matColorBuffer m), dbi_offset = 0,
                  dbi_range = VK_WHOLE_SIZE\<rparr>) (m_objModel ?s)"
    "last dbiMat = \<lparr>dbi_buffer = buffer (implMatBuf (m_implObjects ?s)), dbi_offset = 0,
                     dbi_range = VK_WHOLE_SIZE\<rparr>"
    "dbiMatIdx = map (\<lambda>m. \<lparr>dbi_buffer = buffer (matIndexBuffer m), dbi_offset = 0,
                              dbi_range = VK_WHOLE_SIZE\<rparr>) (m_objModel ?s)"
    "dbiVert = map (\<lambda>m. \<lparr>dbi_buffer = buffer (vertexBuffer m), dbi_offset = 0,
                            dbi_range = VK_WHOLE_SIZE\<rparr>) (m_objModel ?s)"
    "dbiIdx = map (\<lambda>m. \<lparr>dbi_buffer = buffer (indexBuffer m), dbi_offset = 0,
                           dbi_range = VK_WHOLE_SIZE\<rparr>) (m_objModel ?s)"
    by blast
  have sp: "dbiMat = take (length (m_objModel ?s)) dbiMat @ [last dbiMat]"
    using w(5) by (intro snoc_split) simp
  have "map dbi_buffer dbiMat =
      map dbi_buffer (take (length (m_objModel ?s)) dbiMat @ [last dbiMat])"
    using sp by (rule arg_cong)
  also have "\<dots> = map dbi_buffer (take (length (m_objModel ?s)) dbiMat)
      @ [dbi_buffer (last dbiMat)]"
    by simp
  also have "\<dots> = map (\<lambda>m. buffer (matColorBuffer m)) (m_objModel oneModelApp)
      @ [buffer (implMatBuf (m_implObjects oneModelApp))]"
    by (simp only: w(6,7)) (simp add: layout_scene comp_def)
  finally have m1: "map dbi_buffer dbiMat = [3, 0]"
    by (simp add: oneModelApp_buffers)
  have m4: "map dbi_buffer dbiMatIdx = [4]"
    using oneModelApp_buffers(2) by (simp add: w(8) layout_scene comp_def)
  have m5: "map dbi_buffer dbiVert = [1]"
    using oneModelApp_buffers(3) by (simp add: w(9) layout_scene comp_def)
  have m6: "map dbi_buffer dbiIdx = [2]"
    using oneModelApp_buffers(4) by (simp add: w(10) layout_scene comp_def)
  have lt: "length (m_objModel oneModelApp) + 1 < 2 ^ 32" by (simp add: o)
  have r1: "map_option (map_sum id (map dbi_buffer)) (buffersWritten (descriptorWrites ?s) 1)
      = Some (Inr [3, 0])"
    by (simp add: w(1) m1)
  have r4: "map_option (map_sum id (map dbi_buffer)) (buffersWritten (descriptorWrites ?s) 4)
      = Some (Inr [4])"
    by (simp add: w(2) m4)
  have r5: "map_option (map_sum id (map dbi_buffer)) (buffersWritten (descriptorWrites ?s) 5)
      = Some (Inr [1])"
    by (simp add: w(3) m5)
  have r6: "map_option (map_sum id (map dbi_buffer)) (buffersWritten (descriptorWrites ?s) 6)
      = Some (Inr [2])"
    by (simp add: w(4) m6)
  show ?thesis
    by (intro conjI o(1) lt r1 r4 r5 r6)
qed

text \<open>
  C1 as stated fails when a model is loaded after the layout was created. The implicit
  buffers and the layout are created for an empty scene, then one model is loaded: the
  scene has \<open>N = 1\<close> model, and the array written at binding 1 has one entry, the model's
  material-colour buffer 8, without the implicit-material buffer 2.
\<close>

theorem updateDescriptorSet_stale_count:
  "length (m_objModel lateModelApp) = 1
   \<and> buffer (implMatBuf (m_implObjects lateModelApp)) = 2
   \<and> map (\<lambda>m. buffer (matColorBuffer m)) (m_objModel lateModelApp) = [8]
   \<and> map_option (map_sum id (map dbi_buffer)) (buffersWritten (descriptorWrites lateModelApp) 1)
      = Some (Inr [8])"
proof -
  have f: "length (m_objModel lateModelApp) = 1"
    "buffer (implMatBuf (m_implObjects lateModelApp)) = 2"
    "map (\<lambda>m. buffer (matColorBuffer m)) (m_objModel lateModelApp) = [8]"
    "declaredCount (m_descSetLayoutBind lateModelApp) 1 = Some 1"
    by (simp_all add: lateModelApp_def loadModel_def createBuffer_def createTextureImages_def
        pushTexture_def createDescriptorSetLayout_def addBinding_def createImplictBuffers_def
        testLoader_def testExt_def emptyApp_def Let_def)
  have "map_option (map_sum id (map dbi_buffer)) (buffersWritten (descriptorWrites lateModelApp) 1)
      = Some (Inr (take 1 (map (\<lambda>m. buffer (matColorBuffer m)) (m_objModel lateModelApp)
                            @ [buffer (implMatBuf (m_implObjects lateModelApp))])))"
    by (simp add: buffersWritten_def transferred_def descriptorWrites_eq f(1,4) wholeBuffer_def
        comp_def take_map)
  then show ?thesis using f by simp
qed

lemma oneModelApp_sizes:
  "m_descSetLayoutBind oneModelApp = []"
  "length (m_objModel oneModelApp) = 1"
  "length (m_textures oneModelApp) = 1"
  by (simp_all add: oneModelApp_scene)

text \<open>
  C6, as the code has it. \<open>updateDescriptorSet\<close> compares no length with the layout: in
  every state it issues the one \<open>vkUpdateDescriptorSets\<close> call with its eight writes. Each
  array write carries the count the layout declares for its binding and points at a vector
  whose length is that of the current model or texture vector (\<open>N + 1\<close> at binding 1, \<open>N\<close> at
  bindings 4, 5 and 6, the number of textures at binding 3). The count and the length of
  the vector are equal when the layout bindings are those created, from an empty binding
  list, in a state with the same numbers of models and textures (and these fit \<open>uint32_t\<close>).
\<close>

theorem updateDescriptorSet_unchecked:
  "calls (updateDescriptorSet s) = calls s @ [VkUpdateDescriptorSets (descriptorWrites s)]
   \<and> map (\<lambda>w. (writeBinding w, writeCount w, vectorLength w)) (descriptorWrites s) =
       [(0, Some 1, 1), (2, Some 1, 1),
        (1, declaredCount (m_descSetLayoutBind s) 1, length (m_objModel s) + 1),
        (4, declaredCount (m_descSetLayoutBind s) 4, length (m_objModel s)),
        (5, declaredCount (m_descSetLayoutBind s) 5, length (m_objModel s)),
        (6, declaredCount (m_descSetLayoutBind s) 6, length (m_objModel s)),
        (3, declaredCount (m_descSetLayoutBind s) 3, length (m_textures s)),
        (7, Some 1, 1)]
   \<and> (m_descSetLayoutBind s0 = []
       \<and> m_descSetLayoutBind s = m_descSetLayoutBind (createDescriptorSetLayout s0)
       \<and> length (m_objModel s0) = length (m_objModel s)
       \<and> length (m_textures s0) = length (m_textures s)
       \<and> length (m_objModel s) + 1 < 2 ^ 32
       \<and> length (m_textures s) < 2 ^ 32
      \<longrightarrow> (\<forall>w\<in>set (descriptorWrites s). map_option unat (writeCount w) = Some (vectorLength w)))"
proof -
  have a: "calls (updateDescriptorSet s) = calls s @ [VkUpdateDescriptorSets (descriptorWrites s)]"
    by (simp add: updateDescriptorSet_def)
  have b: "map (\<lambda>w. (writeBinding w, writeCount w, vectorLength w)) (descriptorWrites s) =
       [(0, Some 1, 1), (2, Some 1, 1),
        (1, declaredCount (m_descSetLayoutBind s) 1, length (m_objModel s) + 1),
        (4, declaredCount (m_descSetLayoutBind s) 4, length (m_objModel s)),
        (5, declaredCount (m_descSetLayoutBind s) 5, length (m_objModel s)),
        (6, declaredCount (m_descSetLayoutBind s) 6, length (m_objModel s)),
        (3, declaredCount (m_descSetLayoutBind s) 3, length (m_textures s)),
        (7, Some 1, 1)]"
    by (simp add: descriptorWrites_eq)
  have c: "\<forall>w\<in>set (descriptorWrites s). map_option unat (writeCount w) = Some (vectorLength w)"
    if h: "m_descSetLayoutBind s0 = []"
      "m_descSetLayoutBind s = m_descSetLayoutBind (createDescriptorSetLayout s0)"
      "length (m_objModel s0) = length (m_objModel s)"
      "length (m_textures s0) = length (m_textures s)"
      "length (m_objModel s) + 1 < 2 ^ 32"
      "length (m_textures s) < 2 ^ 32"
  proof -
    have n: "length (m_objModel s) < 2 ^ 32" using h(5) by simp
    note cnt = fresh_layout_counts [OF h(1,2)]
    show ?thesis
      using unat_of_nat32 [OF n] unat_of_nat32 [OF h(6)] unat_of_nat32_Suc [OF h(5)]
      by (simp add: descriptorWrites_eq cnt h(3,4))
  qed
  from a b c show ?thesis by blast
qed

theorem updateDescriptorSet_unchecked_witness:
  "m_descSetLayoutBind oneModelApp = [] \<and> length (m_objModel oneModelApp) + 1 < 2 ^ 32
   \<and> length (m_textures oneModelApp) < 2 ^ 32
   \<and> map (\<lambda>w. (writeBinding w, map_option unat (writeCount w), vectorLength w))
        (descriptorWrites (createDescriptorSetLayout oneModelApp))
      = [(0, Some 1, 1), (2, Some 1, 1), (1, Some 2, 2), (4, Some 1, 1), (5, Some 1, 1),
         (6, Some 1, 1), (3, Some 1, 1), (7, Some 1, 1)]"
proof -
  let ?L = "createDescriptorSetLayout oneModelApp"
  have h: "m_descSetLayoutBind oneModelApp = []"
    "m_descSetLayoutBind ?L = m_descSetLayoutBind (createDescriptorSetLayout oneModelApp)"
    "length (m_objModel oneModelApp) = length (m_objModel ?L)"
    "length (m_textures oneModelApp) = length (m_textures ?L)"
    "length (m_objModel ?L) + 1 < 2 ^ 32"
    "length (m_textures ?L) < 2 ^ 32"
    by (simp_all add: oneModelApp_sizes layout_scene)
  from updateDescriptorSet_unchecked [of ?L oneModelApp] h
  have "\<forall>w\<in>set (descriptorWrites ?L). map_option unat (writeCount w) = Some (vectorLength w)"
    by blast
  then have "map (\<lambda>w. (writeBinding w, map_option unat (writeCount w), vectorLength w))
        (descriptorWrites ?L)
      = map (\<lambda>w. (writeBinding w, Some (vectorLength w), vectorLength w)) (descriptorWrites ?L)"
    by simp
  also have "\<dots> = [(0, Some 1, 1), (2, Some 1, 1), (1, Some 2, 2), (4, Some 1, 1), (5, Some 1, 1),
         (6, Some 1, 1), (3, Some 1, 1), (7, Some 1, 1)]"
    by (simp add: descriptorWrites_eq layout_scene oneModelApp_sizes)
  finally show ?thesis by (simp add: oneModelApp_sizes)
qed

lemma staleApp_layout:
  "m_descSetLayoutBind staleApp = m_descSetLayoutBind (createDescriptorSetLayout emptyApp)"
  "length (m_objModel staleApp) = 1"
  by (simp_all add: staleApp_def loadModel_def createBuffer_def createTextureImages_def
      pushTexture_def testLoader_def testExt_def Let_def createDescriptorSetLayout_def emptyApp_def)

text \<open>
  C6 as stated fails: the layout declares one material buffer at binding 1, a model is
  loaded afterwards, and \<open>updateDescriptorSet\<close> issues the write for that binding, pointing
  at a two-element vector, all the same.
\<close>

theorem updateDescriptorSet_writes_stale_layout:
  "declaredCount (m_descSetLayoutBind staleApp) 1 = Some 1
   \<and> map_option (\<lambda>w. length (snd w)) (arrayAt (descriptorWrites staleApp) 1) = Some 2
   \<and> calls (updateDescriptorSet staleApp) =
       calls staleApp @ [VkUpdateDescriptorSets (descriptorWrites staleApp)]"
proof -
  have "declaredCount (m_descSetLayoutBind staleApp) 1 = Some 1"
    by (simp add: staleApp_layout(1) createDescriptorSetLayout_def addBinding_def Let_def
        emptyApp_def)
  moreover have "map_option (\<lambda>w. length (snd w)) (arrayAt (descriptorWrites staleApp) 1) = Some 2"
    by (simp add: descriptorWrites_eq staleApp_layout(2))
  moreover have "calls (updateDescriptorSet staleApp) =
       calls staleApp @ [VkUpdateDescriptorSets (descriptorWrites staleApp)]"
    by (simp add: updateDescriptorSet_def)
  ultimately show ?thesis by blast
qed

section \<open>Teardown: properties\<close>

lemma destroyModels_eq:
  "destroyModels ms =
     concat (map (\<lambda>m. [AllocDestroyBuffer (vertexBuffer m), AllocDestroyBuffer (indexBuffer m),
                        AllocDestroyBuffer (matColorBuffer m), AllocDestroyBuffer (matIndexBuffer m)]) ms)"
  by (induction ms) simp_all

text \<open>
  C10, as the code has it. \<open>destroyResources\<close> releases, in this order: the graphics
  pipeline, the pipeline layout, the descriptor pool, the descriptor-set layout, the camera,
  scene-description, implicit-primitive and implicit-material buffers, the four buffers of
  each model in model order, every texture, and then the offscreen component, the ray
  tracer and the allocator.
\<close>

theorem destroyResources_order:
  "calls (destroyResources s) =
     calls s
     @ [VkDestroyPipeline (m_graphicsPipeline s),
        VkDestroyPipelineLayout (m_pipelineLayout s),
        VkDestroyDescriptorPool (m_descPool s),
        VkDestroyDescriptorSetLayout (m_descSetLayout s)]
     @ [AllocDestroyBuffer (m_cameraMat s), AllocDestroyBuffer (m_sceneDesc s),
        AllocDestroyBuffer (implBuf (m_implObjects s)),
        AllocDestroyBuffer (implMatBuf (m_implObjects s))]
     @ concat (map (\<lambda>m. [AllocDestroyBuffer (vertexBuffer m), AllocDestroyBuffer (indexBuffer m),
                           AllocDestroyBuffer (matColorBuffer m),
                           AllocDestroyBuffer (matIndexBuffer m)]) (m_objModel s))
     @ map AllocDestroyTexture (m_textures s)
     @ [OffscreenDestroy, RaytraceDestroy, AllocDeinit]"
  by (simp add: destroyResources_def destroyCalls_def destroyModels_eq)

text \<open>
  C10 as stated fails: the descriptor pool is destroyed before the descriptor-set layout, so
  the releases are not in the order pipeline, layouts, pools, buffers, images.
\<close>

theorem destroyResources_pool_before_set_layout:
  "\<not> spec_release_order (calls (destroyResources emptyApp))
   \<and> take 4 (calls (destroyResources emptyApp)) =
       [VkDestroyPipeline 0, VkDestroyPipelineLayout 0, VkDestroyDescriptorPool 0,
        VkDestroyDescriptorSetLayout 0]"
  by (simp add: destroyResources_def destroyCalls_def spec_release_order_def emptyApp_def
      List.map_filter_simps)

section \<open>Resource registry: properties\<close>

lemma uploadImages_scene:
  "m_objModel (uploadImages E ts s) = m_objModel s
   \<and> m_objInstance (uploadImages E ts s) = m_objInstance s
   \<and> (\<exists>new. m_textures (uploadImages E ts s) = m_textures s @ new \<and> length new = length ts)"
proof (induction ts arbitrary: s)
  case Nil
  show ?case by simp
next
  case (Cons t ts)
  let ?img = "case stbi_load E (''media/textures/'' @ t) of
                None \<Rightarrow> \<lparr>texWidth = 1, texHeight = 1, stbi_pixels = [255, 0, 255, 255]\<rparr>
              | Some i \<Rightarrow> i"
  let ?s1 = "pushTexture (texWidth ?img, texHeight ?img)
               (scast (texWidth ?img) * scast (texHeight ?img) * 1 * 4) (stbi_pixels ?img) True s"
  have step: "uploadImages E (t # ts) s = uploadImages E ts ?s1"
    by (simp add: Let_def)
  from Cons.IH [of ?s1] obtain new where
    new: "m_textures (uploadImages E ts ?s1) = m_textures ?s1 @ new" "length new = length ts"
    and keep: "m_objModel (uploadImages E ts ?s1) = m_objModel ?s1"
      "m_objInstance (uploadImages E ts ?s1) = m_objInstance ?s1"
    by blast
  obtain tex where tex: "m_textures ?s1 = m_textures s @ [tex]"
    by (simp add: pushTexture_def Let_def)
  have "m_textures (uploadImages E (t # ts) s) = m_textures s @ (tex # new)"
    using new(1) tex step by simp
  moreover have "length (tex # new) = length (t # ts)" using new(2) by simp
  moreover have "m_objModel (uploadImages E (t # ts) s) = m_objModel s"
    using keep(1) step by (simp add: pushTexture_def Let_def)
  moreover have "m_objInstance (uploadImages E (t # ts) s) = m_objInstance s"
    using keep(2) step by (simp add: pushTexture_def Let_def)
  ultimately show ?case by blast
qed

lemma createTextureImages_scene:
  "m_objModel (createTextureImages E ts s) = m_objModel s"
  "m_objInstance (createTextureImages E ts s) = m_objInstance s"
  by (simp_all add: createTextureImages_def uploadImages_scene pushTexture_def Let_def)

lemma createTextureImages_none:
  "m_textures (createTextureImages E [] s) =
     (if m_textures s = []
      then [\<lparr>descriptor = fresh s, extent = (1, 1), bufferSize = 4,
             pixels = [255, 255, 255, 255], mipmaps = False\<rparr>]
      else m_textures s)"
  by (simp add: createTextureImages_def pushTexture_def Let_def)

lemma loadModel_models:
  "m_objModel (loadModel E ld tr s) =
     m_objModel s @
       [\<lparr>nbIndices = of_nat (length (ld_indices ld)),
         nbVertices = of_nat (length (ld_vertices ld)),
         vertexBuffer = \<lparr>buffer = fresh s\<rparr>,
         indexBuffer = \<lparr>buffer = fresh s + 1\<rparr>,
         matColorBuffer = \<lparr>buffer = fresh s + 2\<rparr>,
         matIndexBuffer = \<lparr>buffer = fresh s + 3\<rparr>\<rparr>]"
  by (simp add: loadModel_def createBuffer_def Let_def createTextureImages_scene)

lemma loadModel_instances:
  "m_objInstance (loadModel E ld tr s) =
     m_objInstance s @
       [\<lparr>objIndex = of_nat (length (m_objModel s)),
         txtOffset = of_nat (length (m_textures s)),
         transform = tr,
         transformIT = nv_transpose E (nv_invert E tr)\<rparr>]"
  by (simp add: loadModel_def createBuffer_def Let_def createTextureImages_scene)

lemma loadModel_textures_none:
  assumes "ld_textures ld = []"
  shows "m_textures (loadModel E ld tr s) =
     (if m_textures s = []
      then [\<lparr>descriptor = fresh s + 4, extent = (1, 1), bufferSize = 4,
             pixels = [255, 255, 255, 255], mipmaps = False\<rparr>]
      else m_textures s)"
  using assms
  by (simp add: loadModel_def createBuffer_def Let_def createTextureImages_none)

lemma unat_of_nat_le: "unat (of_nat n :: 32 word) \<le> n"
  by (simp add: unat_of_nat)

text \<open>
  C8. \<open>loadModel\<close> appends exactly one model and exactly one instance. The instance's
  \<open>objIndex\<close> is the length of the model vector before the call (cast to \<open>uint32_t\<close>), a
  valid index into the model vector after it; its \<open>transformIT\<close> is
  \<open>transpose(invert(transform))\<close>; the first model loaded gets \<open>objIndex = 0\<close>; and if every
  instance indexed the model vector before the call, every instance does after it.
\<close>

theorem loadModel_appends:
  "(\<exists>model inst.
      m_objModel (loadModel E ld tr s) = m_objModel s @ [model]
      \<and> m_objInstance (loadModel E ld tr s) = m_objInstance s @ [inst]
      \<and> objIndex inst = of_nat (length (m_objModel s))
      \<and> unat (objIndex inst) < length (m_objModel (loadModel E ld tr s))
      \<and> transform inst = tr
      \<and> transformIT inst = nv_transpose E (nv_invert E tr))
   \<and> (length (m_objModel s) < 2 ^ 32
      \<longrightarrow> unat (objIndex (last (m_objInstance (loadModel E ld tr s)))) = length (m_objModel s))
   \<and> (m_objModel s = [] \<longrightarrow> objIndex (last (m_objInstance (loadModel E ld tr s))) = 0)
   \<and> ((\<forall>i\<in>set (m_objInstance s). unat (objIndex i) < length (m_objModel s))
      \<longrightarrow> (\<forall>i\<in>set (m_objInstance (loadModel E ld tr s)).
             unat (objIndex i) < length (m_objModel (loadModel E ld tr s))))"
proof -
  have le: "unat (of_nat (length (m_objModel s)) :: 32 word) < Suc (length (m_objModel s))"
    using unat_of_nat_le [of "length (m_objModel s)"] by simp
  have a: "\<exists>model inst.
      m_objModel (loadModel E ld tr s) = m_objModel s @ [model]
      \<and> m_objInstance (loadModel E ld tr s) = m_objInstance s @ [inst]
      \<and> objIndex inst = of_nat (length (m_objModel s))
      \<and> unat (objIndex inst) < length (m_objModel (loadModel E ld tr s))
      \<and> transform inst = tr
      \<and> transformIT inst = nv_transpose E (nv_invert E tr)"
    using le by (simp add: loadModel_models loadModel_instances)
  have b: "length (m_objModel s) < 2 ^ 32
      \<longrightarrow> unat (objIndex (last (m_objInstance (loadModel E ld tr s)))) = length (m_objModel s)"
    by (simp add: loadModel_instances unat_of_nat32)
  have c: "m_objModel s = [] \<longrightarrow> objIndex (last (m_objInstance (loadModel E ld tr s))) = 0"
    by (simp add: loadModel_instances)
  have d: "(\<forall>i\<in>set (m_objInstance s). unat (objIndex i) < length (m_objModel s))
      \<longrightarrow> (\<forall>i\<in>set (m_objInstance (loadModel E ld tr s)).
             unat (objIndex i) < length (m_objModel (loadModel E ld tr s)))"
    using le by (auto simp: loadModel_models loadModel_instances less_Suc_eq)
  from a b c d show ?thesis by blast
qed

theorem loadModel_appends_witness:
  "m_objModel emptyApp = []
   \<and> length (m_objModel oneModelApp) = 1
   \<and> length (m_objInstance oneModelApp) = 1
   \<and> length (m_textures oneModelApp) = 1
   \<and> objIndex (last (m_objInstance oneModelApp)) = 0
   \<and> length (m_objModel oneModelApp) < 2 ^ 32
   \<and> map (\<lambda>i. unat (objIndex i)) (m_objInstance oneModelApp) = [0]
   \<and> length (m_objModel (loadModel testExt testLoader identity4 oneModelApp)) = 2
   \<and> unat (objIndex (last (m_objInstance (loadModel testExt testLoader identity4 oneModelApp)))) = 1
   \<and> list_all (\<lambda>i. unat (objIndex i) < 2)
        (m_objInstance (loadModel testExt testLoader identity4 oneModelApp))"
proof -
  let ?s2 = "loadModel testExt testLoader identity4 oneModelApp"
  have e: "m_objModel emptyApp = []" "m_objInstance emptyApp = []" "m_textures emptyApp = []"
    by (simp_all add: emptyApp_def)
  have t: "ld_textures testLoader = []" by (simp add: testLoader_def)
  have f1: "length (m_objModel oneModelApp) = 1"
    by (simp add: oneModelApp_def loadModel_models e)
  have f2: "map (\<lambda>i. unat (objIndex i)) (m_objInstance oneModelApp) = [0]"
    by (simp add: oneModelApp_def loadModel_instances e)
  have f3: "length (m_objInstance oneModelApp) = 1"
    by (simp add: oneModelApp_def loadModel_instances e)
  have f4: "length (m_textures oneModelApp) = 1"
    by (simp add: oneModelApp_def loadModel_textures_none [OF t] e)
  have valid1: "\<forall>i\<in>set (m_objInstance oneModelApp).
                  unat (objIndex i) < length (m_objModel oneModelApp)"
  proof
    fix i assume "i \<in> set (m_objInstance oneModelApp)"
    then have "unat (objIndex i) \<in> set (map (\<lambda>i. unat (objIndex i)) (m_objInstance oneModelApp))"
      by simp
    then show "unat (objIndex i) < length (m_objModel oneModelApp)"
      by (simp add: f1 f2)
  qed
  note w0 = loadModel_appends [of testExt testLoader identity4 emptyApp]
  note w1 = loadModel_appends [of testExt testLoader identity4 oneModelApp]
  from w0 e have z: "objIndex (last (m_objInstance oneModelApp)) = 0"
    unfolding oneModelApp_def by blast
  from w1 obtain model where "m_objModel ?s2 = m_objModel oneModelApp @ [model]"
    by blast
  then have l2: "length (m_objModel ?s2) = 2"
    by (simp add: f1)
  from w1 f1 have u2: "unat (objIndex (last (m_objInstance ?s2))) = 1"
    by simp
  from w1 valid1 have "\<forall>i\<in>set (m_objInstance ?s2). unat (objIndex i) < length (m_objModel ?s2)"
    by blast
  then have v2: "list_all (\<lambda>i. unat (objIndex i) < 2) (m_objInstance ?s2)"
    by (simp add: l2 list_all_iff)
  have lt: "length (m_objModel oneModelApp) < 2 ^ 32"
    by (simp add: f1)
  show ?thesis
    by (intro conjI e(1) f1 f3 f4 z lt f2 l2 u2 v2)
qed

lemma loadModels_keep_textures:
  assumes "\<forall>l\<in>set loads. ld_textures (fst l) = []" and "m_textures s \<noteq> []"
  shows "m_textures (loadModels E loads s) = m_textures s"
  using assms
proof (induction loads arbitrary: s)
  case Nil
  show ?case by simp
next
  case (Cons l loads)
  obtain ld tr where l: "l = (ld, tr)" by (cases l)
  have t: "ld_textures ld = []" using Cons.prems(1) l by simp
  have one: "m_textures (loadModel E ld tr s) = m_textures s"
    using Cons.prems(2) by (simp add: loadModel_textures_none [OF t])
  have "m_textures (loadModels E loads (loadModel E ld tr s)) = m_textures (loadModel E ld tr s)"
    using Cons.prems one by (intro Cons.IH) simp_all
  then show ?case using one l by simp
qed

text \<open>
  C5, as the code has it. Starting with no texture, after loading at least one model, none
  of the models naming a texture, the texture vector holds exactly one texture: a 1x1 image
  of four bytes, 255, 255, 255, 255.
\<close>

theorem no_textures_one_dummy:
  assumes "m_textures s = []" and "loads \<noteq> []"
    and "\<forall>l\<in>set loads. ld_textures (fst l) = []"
  shows "\<exists>t. m_textures (loadModels E loads s) = [t]
            \<and> extent t = (1, 1) \<and> bufferSize t = 4 \<and> pixels t = [255, 255, 255, 255]"
proof -
  obtain ld tr rest where loads: "loads = (ld, tr) # rest"
    using assms(2) by (cases loads) auto
  have t: "ld_textures ld = []" using assms(3) loads by simp
  let ?d = "\<lparr>descriptor = fresh s + 4, extent = (1, 1), bufferSize = 4,
             pixels = [255, 255, 255, 255], mipmaps = False\<rparr>"
  have first: "m_textures (loadModel E ld tr s) = [?d]"
    using assms(1) by (simp add: loadModel_textures_none [OF t])
  have "m_textures (loadModels E rest (loadModel E ld tr s)) = m_textures (loadModel E ld tr s)"
    using assms(3) loads first by (intro loadModels_keep_textures) simp_all
  then have "m_textures (loadModels E loads s) = [?d]"
    using first loads by simp
  then show ?thesis by simp
qed

theorem no_textures_one_dummy_witness:
  "m_textures emptyApp = [] \<and> [(testLoader, identity4), (testLoader, identity4)] \<noteq> []
   \<and> map (\<lambda>l. ld_textures (fst l)) [(testLoader, identity4), (testLoader, identity4)] = [[], []]
   \<and> map (\<lambda>t. (extent t, bufferSize t, pixels t))
        (m_textures (loadModels testExt [(testLoader, identity4), (testLoader, identity4)] emptyApp))
      = [((1, 1), 4, [255, 255, 255, 255])]"
proof -
  have h1: "m_textures emptyApp = []" by (simp add: emptyApp_def)
  have h2: "[(testLoader, identity4), (testLoader, identity4)] \<noteq> []" by simp
  have h3: "\<forall>l\<in>set [(testLoader, identity4), (testLoader, identity4)]. ld_textures (fst l) = []"
    by (simp add: testLoader_def)
  from no_textures_one_dummy [OF h1 h2 h3, of testExt]
  obtain t where "m_textures (loadModels testExt [(testLoader, identity4), (testLoader, identity4)] emptyApp) = [t]"
    "extent t = (1, 1)" "bufferSize t = 4" "pixels t = [255, 255, 255, 255]"
    by blast
  then show ?thesis using h1 by (simp add: testLoader_def)
qed

text \<open>
  C5 as stated fails for the scene without models (implicit objects only): no model names
  a texture, and the texture vector stays empty.
\<close>

theorem no_models_no_texture:
  "length (m_textures (loadModels testExt ([] :: ((nat, nat) ObjLoader \<times> mat4f) list) emptyApp)) = 0"
  by (simp add: emptyApp_def)

text \<open>
  C7. After \<open>createImplictBuffers\<close> the implicit-primitive vector is the old one if that was
  not empty, and the one-element vector of the default entry if it was; the same holds for
  the implicit-material vector. Both are non-empty, and the two uploads carry their lengths.
  In particular, two \<open>addImplSphere\<close> calls and no material leave exactly the default
  material.
\<close>

theorem createImplictBuffers_nonempty:
  "objImpl (m_implObjects (createImplictBuffers E s)) =
     (if objImpl (m_implObjects s) = [] then [ObjImplicit_default E] else objImpl (m_implObjects s))
   \<and> implMat (m_implObjects (createImplictBuffers E s)) =
     (if implMat (m_implObjects s) = [] then [MaterialObj_default E] else implMat (m_implObjects s))
   \<and> objImpl (m_implObjects (createImplictBuffers E s)) \<noteq> []
   \<and> implMat (m_implObjects (createImplictBuffers E s)) \<noteq> []
   \<and> calls (createImplictBuffers E s) =
       calls s @
         [AllocCreateBuffer (implBuf (m_implObjects (createImplictBuffers E s)))
            (length (objImpl (m_implObjects (createImplictBuffers E s)))),
          AllocCreateBuffer (implMatBuf (m_implObjects (createImplictBuffers E s)))
            (length (implMat (m_implObjects (createImplictBuffers E s))))]
   \<and> (implMat (m_implObjects s) = []
      \<longrightarrow> implMat (m_implObjects (createImplictBuffers E
              (addImplSphere E c2 r2 m2 (addImplSphere E c1 r1 m1 s)))) = [MaterialObj_default E]
          \<and> length (objImpl (m_implObjects (createImplictBuffers E
              (addImplSphere E c2 r2 m2 (addImplSphere E c1 r1 m1 s)))))
            = length (objImpl (m_implObjects s)) + 2)"
  by (simp add: createImplictBuffers_def createBuffer_def addImplSphere_def Let_def)

theorem createImplictBuffers_nonempty_witness:
  "implMat (m_implObjects emptyApp) = []
   \<and> implMat (m_implObjects (createImplictBuffers testExt
        (addImplSphere testExt (Vec3f 0 0 0) 1 0 (addImplSphere testExt (Vec3f 5 5 5) 2 0 emptyApp))))
      = [0]
   \<and> length (objImpl (m_implObjects (createImplictBuffers testExt
        (addImplSphere testExt (Vec3f 0 0 0) 1 0 (addImplSphere testExt (Vec3f 5 5 5) 2 0 emptyApp)))))
      = 2"
  using createImplictBuffers_nonempty [where E = testExt and s = emptyApp
      and ?c1.0 = "Vec3f 5 5 5" and ?r1.0 = 2 and ?m1.0 = 0
      and ?c2.0 = "Vec3f 0 0 0" and ?r2.0 = 1 and ?m2.0 = 0]
  by (simp add: emptyApp_def testExt_def)

text \<open>
  C9. \<open>addImplSphere\<close> changes nothing but the implicit-primitive vector, to which it
  appends one entry: minimum \<open>center - radius\<close>, maximum \<open>center + radius\<close>, type
  \<open>eSphere\<close>, the given material id. The entries already there stay, in place.
\<close>

theorem addImplSphere_appends:
  "addImplSphere E center radius mid s =
     s\<lparr>m_implObjects := (m_implObjects s)\<lparr>objImpl := objImpl (m_implObjects (addImplSphere E center radius mid s))\<rparr>\<rparr>
   \<and> objImpl (m_implObjects (addImplSphere E center radius mid s)) =
       objImpl (m_implObjects s) @
         [\<lparr>minimum = vec_minus E center radius, maximum = vec_plus E center radius,
           objType = eSphere, matId = mid\<rparr>]
   \<and> length (objImpl (m_implObjects (addImplSphere E center radius mid s)))
       = length (objImpl (m_implObjects s)) + 1
   \<and> take (length (objImpl (m_implObjects s)))
         (objImpl (m_implObjects (addImplSphere E center radius mid s)))
       = objImpl (m_implObjects s)"
  by (simp add: addImplSphere_def Let_def)

end
